theory Spec2Isabelle
  imports Complex_Main
begin

section \<open>Python errors and the result type\<close>

text \<open>
  Every \<open>raise\<close>, failed \<open>assert\<close> and failure of a tensor operation of
  \<open>ncps/torch/cfc_cell.py\<close> is a value of \<open>error\<close>; a function that can fail
  returns \<open>error + 'a\<close> with \<open>Inl\<close> for the exception.
\<close>

datatype error =
    ValueError | AssertionError | IndexError | TypeError | AttributeError
  | RuntimeError | ZeroDivisionError

definition bindE :: "error + 'a \<Rightarrow> ('a \<Rightarrow> error + 'b) \<Rightarrow> error + 'b" where
  "bindE m f = (case m of Inl e \<Rightarrow> Inl e | Inr v \<Rightarrow> f v)"

section \<open>Two-dimensional tensors\<close>

text \<open>
  A tensor is its list of rows together with its number of columns, so that the shape
  of a tensor without rows is still known. Entries are real numbers: the arithmetic of
  \<open>float32\<close> is idealised, rounding and overflow are not modelled. Tensors of
  fewer dimensions are kept apart from these, see \<open>targ\<close> below.
\<close>

datatype 'a tensor = Tensor (ncols: nat) (rws: "'a list list")

definition nrows :: "'a tensor \<Rightarrow> nat" where
  "nrows t = length (rws t)"

definition wf_tensor :: "'a tensor \<Rightarrow> bool" where
  "wf_tensor t = list_all (\<lambda>r. length r = ncols t) (rws t)"

definition has_shape :: "nat \<Rightarrow> nat \<Rightarrow> 'a tensor \<Rightarrow> bool" where
  "has_shape r c t = (wf_tensor t \<and> nrows t = r \<and> ncols t = c)"

definition bcast_to :: "nat \<Rightarrow> nat \<Rightarrow> 'a tensor \<Rightarrow> bool" where
  "bcast_to r c t =
     (wf_tensor t \<and> (nrows t = r \<or> nrows t = 1) \<and> (ncols t = c \<or> ncols t = 1))"

definition el :: "'a tensor \<Rightarrow> nat \<Rightarrow> nat \<Rightarrow> 'a" where
  "el t i j = rws t ! i ! j"

text \<open>The entry a tensor contributes at position \<open>(i, j)\<close> once it is broadcast.\<close>

definition bel :: "'a tensor \<Rightarrow> nat \<Rightarrow> nat \<Rightarrow> 'a" where
  "bel t i j = el t (if nrows t = 1 then 0 else i) (if ncols t = 1 then 0 else j)"

definition full :: "nat \<Rightarrow> nat \<Rightarrow> 'a \<Rightarrow> 'a tensor" where
  "full r c v = Tensor c (replicate r (replicate c v))"

definition umap :: "('a \<Rightarrow> 'b) \<Rightarrow> 'a tensor \<Rightarrow> 'b tensor" where
  "umap f t = Tensor (ncols t) (map (map f) (rws t))"

text \<open>Broadcasting of one dimension: equal sizes, or one of them is 1.\<close>

definition bdim :: "nat \<Rightarrow> nat \<Rightarrow> nat option" where
  "bdim m n = (if m = n then Some m else if m = 1 then Some n
               else if n = 1 then Some m else None)"

definition expand_list :: "nat \<Rightarrow> 'a list \<Rightarrow> 'a list" where
  "expand_list n xs = (if length xs = n then xs else replicate n (xs ! 0))"

definition expand :: "nat \<Rightarrow> nat \<Rightarrow> 'a tensor \<Rightarrow> 'a tensor" where
  "expand r c t = Tensor c (expand_list r (map (expand_list c) (rws t)))"

text \<open>An element-wise binary operation of torch, with broadcasting.\<close>

definition bop :: "('a \<Rightarrow> 'b \<Rightarrow> 'c) \<Rightarrow> 'a tensor \<Rightarrow> 'b tensor \<Rightarrow> error + 'c tensor" where
  "bop f a b =
     (case bdim (nrows a) (nrows b) of
        None \<Rightarrow> Inl RuntimeError
      | Some r \<Rightarrow>
          (case bdim (ncols a) (ncols b) of
             None \<Rightarrow> Inl RuntimeError
           | Some c \<Rightarrow>
               Inr (Tensor c (map2 (map2 f) (rws (expand r c a)) (rws (expand r c b))))))"

text \<open>\<open>torch.cat([a, b], 1)\<close>.\<close>

definition cat1 :: "'a tensor \<Rightarrow> 'a tensor \<Rightarrow> error + 'a tensor" where
  "cat1 a b =
     (if nrows a = nrows b
      then Inr (Tensor (ncols a + ncols b) (map2 (@) (rws a) (rws b)))
      else Inl RuntimeError)"

text \<open>The transpose \<open>.T\<close>.\<close>

definition transpose_t :: "'a tensor \<Rightarrow> 'a tensor" where
  "transpose_t t = Tensor (nrows t) (map (\<lambda>j. map (\<lambda>r. r ! j) (rws t)) [0..<ncols t])"

definition dot :: "real list \<Rightarrow> real list \<Rightarrow> real" where
  "dot xs ws = sum_list (map2 (*) xs ws)"

text \<open>
  \<open>F.linear(x, W, b)\<close>: \<open>x W\<^sup>T + b\<close> for a weight of shape \<open>(out, in)\<close> and
  a bias of \<open>out\<close> entries, the shapes \<open>nn.Linear\<close> creates.
\<close>

definition linear :: "real tensor \<Rightarrow> real tensor \<Rightarrow> real list \<Rightarrow> error + real tensor" where
  "linear x W b =
     (if ncols x = ncols W \<and> length b = nrows W
      then Inr (Tensor (nrows W)
                  (map (\<lambda>r. map2 (\<lambda>w bj. dot r w + bj) (rws W) b) (rws x)))
      else Inl RuntimeError)"

section \<open>The random generator\<close>

text \<open>
  The state of torch's global generator is the sequence of uniform samples of
  \<open>[0, 1)\<close> it is going to deliver; an operation that draws \<open>n\<close> samples reads the
  first \<open>n\<close> and leaves the rest.
\<close>

type_synonym rng = "nat \<Rightarrow> real"

definition advance :: "nat \<Rightarrow> rng \<Rightarrow> rng" where
  "advance n g = (\<lambda>k. g (k + n))"

text \<open>\<open>torch.rand((r, c))\<close>.\<close>

definition rand :: "nat \<Rightarrow> nat \<Rightarrow> rng \<Rightarrow> real tensor \<times> rng" where
  "rand r c g =
     (Tensor c (map (\<lambda>i. map (\<lambda>j. g (i * c + j)) [0..<c]) [0..<r]), advance (r * c) g)"

text \<open>\<open>tensor.uniform_(lo, hi)\<close> on a tensor of shape \<open>(r, c)\<close>.\<close>

definition uniform_fill :: "nat \<Rightarrow> nat \<Rightarrow> real \<Rightarrow> real \<Rightarrow> rng \<Rightarrow> real tensor \<times> rng" where
  "uniform_fill r c lo hi g =
     (umap (\<lambda>u. lo + (hi - lo) * u) (fst (rand r c g)), snd (rand r c g))"

text \<open>\<open>tensor.bernoulli_(q)\<close>: 1 with probability \<open>q\<close>, else 0.\<close>

definition bernoulli_fill :: "nat \<Rightarrow> nat \<Rightarrow> real \<Rightarrow> rng \<Rightarrow> real tensor \<times> rng" where
  "bernoulli_fill r c q g =
     (umap (\<lambda>u. if u < q then 1 else 0) (fst (rand r c g)), snd (rand r c g))"

text \<open>Computations that draw from the generator and may raise.\<close>

type_synonym 'a gen = "rng \<Rightarrow> (error + 'a) \<times> rng"

definition returnG :: "'a \<Rightarrow> 'a gen" where
  "returnG v g = (Inr v, g)"

definition failG :: "error \<Rightarrow> 'a gen" where
  "failG e g = (Inl e, g)"

definition bindG :: "'a gen \<Rightarrow> ('a \<Rightarrow> 'b gen) \<Rightarrow> 'b gen" where
  "bindG m f g = (case m g of (Inl e, g') \<Rightarrow> (Inl e, g') | (Inr v, g') \<Rightarrow> f v g')"

definition liftG :: "(rng \<Rightarrow> 'a \<times> rng) \<Rightarrow> 'a gen" where
  "liftG m g = (case m g of (v, g') \<Rightarrow> (Inr v, g'))"

section \<open>Tensor arguments\<close>

text \<open>
  A tensor handed to the cell has dimension 0 (also a Python number), 1 or 2; a
  one-dimensional tensor is written with its first entry apart, so it has at least one
  entry. The dimension decides whether \<open>torch.cat\<close> along dimension 1 accepts the
  tensor. Against a two-dimensional operand, broadcasting treats a tensor of dimension
  0 as the \<open>1 \<times> 1\<close> tensor and one of dimension 1 with \<open>n\<close> entries as the
  \<open>1 \<times> n\<close> tensor: that is \<open>view2\<close>.
\<close>

datatype targ = T0 real | T1 real "real list" | T2 "real tensor"

definition view2 :: "targ \<Rightarrow> real tensor" where
  "view2 a =
     (case a of
        T0 v \<Rightarrow> Tensor 1 [[v]]
      | T1 v vs \<Rightarrow> Tensor (Suc (length vs)) [v # vs]
      | T2 t \<Rightarrow> t)"

text \<open>
  \<open>torch.cat([a, b], 1)\<close>: two-dimensional tensors are joined; one-dimensional ones
  have no dimension 1 (\<open>IndexError\<close>); every other combination is refused with a
  \<open>RuntimeError\<close>.
\<close>

definition cat_dim1 :: "targ \<Rightarrow> targ \<Rightarrow> error + real tensor" where
  "cat_dim1 a b =
     (case a of
        T2 x \<Rightarrow> (case b of T2 y \<Rightarrow> cat1 x y | T1 w ws \<Rightarrow> Inl RuntimeError | T0 w \<Rightarrow> Inl RuntimeError)
      | T1 v vs \<Rightarrow> (case b of T1 w ws \<Rightarrow> Inl IndexError | T2 y \<Rightarrow> Inl RuntimeError | T0 w \<Rightarrow> Inl RuntimeError)
      | T0 v \<Rightarrow> Inl RuntimeError)"

section \<open>Activations and modules\<close>

definition sigmoid :: "real \<Rightarrow> real" where
  "sigmoid x = 1 / (1 + exp (- x))"

text \<open>The class \<open>LeCun\<close> of the source.\<close>

definition LeCun :: "real \<Rightarrow> real" where
  "LeCun x = 1.7159 * tanh (0.666 * x)"

definition SiLU :: "real \<Rightarrow> real" where
  "SiLU x = x * sigmoid x"

definition ReLU :: "real \<Rightarrow> real" where
  "ReLU x = max 0 x"

text \<open>
  The modules a \<open>nn.Sequential\<close> of this program holds. A dropout module carries its
  probability and its own \<open>training\<close> flag, which \<open>train()\<close> and \<open>eval()\<close> of an
  enclosing module set and which is \<open>True\<close> when the module is created.
\<close>

datatype linear = Linear (weight: "real tensor") (bias: "real list")

datatype module = LinearM linear | ActivationM "real \<Rightarrow> real" | DropoutM real bool

definition call_linear :: "linear \<Rightarrow> real tensor \<Rightarrow> error + real tensor" where
  "call_linear l x = linear x (weight l) (bias l)"

text \<open>
  \<open>F.dropout(x, p, training)\<close>: the identity outside training, for \<open>p = 0\<close> and on
  an empty tensor; zero for \<open>p = 1\<close>; otherwise a Bernoulli mask with keep probability
  \<open>1 - p\<close>, scaled by \<open>1 / (1 - p)\<close>.
\<close>

definition dropout :: "real \<Rightarrow> bool \<Rightarrow> real tensor \<Rightarrow> real tensor gen" where
  "dropout p train x g =
     (if p < 0 \<or> p > 1 then (Inl ValueError, g)
      else if p = 0 \<or> \<not> train \<or> nrows x * ncols x = 0 then (Inr x, g)
      else if p = 1 then (Inr (umap (\<lambda>v. v * 0) x), g)
      else (bop (*) x (umap (\<lambda>v. v / (1 - p)) (fst (bernoulli_fill (nrows x) (ncols x) (1 - p) g))),
            snd (bernoulli_fill (nrows x) (ncols x) (1 - p) g)))"

fun call_module :: "module \<Rightarrow> real tensor \<Rightarrow> real tensor gen" where
  "call_module (LinearM l) x g = (call_linear l x, g)"
| "call_module (ActivationM f) x g = (Inr (umap f x), g)"
| "call_module (DropoutM p train) x g = dropout p train x g"

fun call_sequential :: "module list \<Rightarrow> real tensor \<Rightarrow> real tensor gen" where
  "call_sequential [] x g = (Inr x, g)"
| "call_sequential (m # ms) x g =
     (case call_module m x g of
        (Inl e, g') \<Rightarrow> (Inl e, g')
      | (Inr y, g') \<Rightarrow> call_sequential ms y g')"

text \<open>
  The same on a tensor of dimension 0: \<open>nn.Linear\<close> refuses it, the other modules
  work entry by entry.
\<close>

fun call_scalar :: "module list \<Rightarrow> real \<Rightarrow> real gen" where
  "call_scalar [] v g = (Inr v, g)"
| "call_scalar (LinearM l # ms) v g = (Inl RuntimeError, g)"
| "call_scalar (ActivationM f # ms) v g = call_scalar ms (f v) g"
| "call_scalar (DropoutM p train # ms) v g =
     (case dropout p train (Tensor 1 [[v]]) g of
        (Inl e, g') \<Rightarrow> (Inl e, g')
      | (Inr y, g') \<Rightarrow> call_scalar ms (el y 0 0) g')"

text \<open>
  A neuromodulation network is the \<open>nn.Sequential\<close> the constructor builds, or any
  other callable object: a function from the input and the generator to the output or
  the exception raised, the object as the call leaves it, and the generator as the call
  leaves it. The result of a \<open>Sequential\<close> on a one-dimensional input is written as
  its \<open>1 \<times> n\<close> view; the cell only broadcasts it against two-dimensional tensors.
\<close>

datatype network =
    Sequential "module list"
  | Callable "targ \<Rightarrow> rng \<Rightarrow> (error + targ) \<times> network \<times> rng"

definition lift2 :: "(error + real tensor) \<times> rng \<Rightarrow> network \<Rightarrow> (error + targ) \<times> network \<times> rng" where
  "lift2 r n = (case r of (Inl e, g') \<Rightarrow> (Inl e, n, g') | (Inr y, g') \<Rightarrow> (Inr (T2 y), n, g'))"

definition lift0 :: "(error + real) \<times> rng \<Rightarrow> network \<Rightarrow> (error + targ) \<times> network \<times> rng" where
  "lift0 r n = (case r of (Inl e, g') \<Rightarrow> (Inl e, n, g') | (Inr v, g') \<Rightarrow> (Inr (T0 v), n, g'))"

fun call_network :: "network \<Rightarrow> targ \<Rightarrow> rng \<Rightarrow> (error + targ) \<times> network \<times> rng" where
  "call_network (Sequential ms) (T2 x) g = lift2 (call_sequential ms x g) (Sequential ms)"
| "call_network (Sequential ms) (T1 v vs) g =
     lift2 (call_sequential ms (view2 (T1 v vs)) g) (Sequential ms)"
| "call_network (Sequential ms) (T0 v) g = lift0 (call_scalar ms v g) (Sequential ms)"
| "call_network (Callable f) a g = f a g"

section \<open>The cell\<close>

text \<open>
  The entries of the diagnostic buffer \<open>tau_system\<close> come from \<open>1.0 / decay\<close>, where
  the decay is a sum of absolute values and can be zero: torch then stores \<open>inf\<close>.
\<close>

datatype ext = Finite real | PosInf

definition recip :: "real \<Rightarrow> ext" where
  "recip x = (if x = 0 then PosInf else Finite (1 / x))"

text \<open>
  The attributes of \<open>CfCCell\<close>. An attribute that only some modes create is an option;
  \<open>cell_A\<close> is the attribute \<open>A\<close>; \<open>training\<close> is the cell's own flag of
  \<open>nn.Module\<close>, which \<open>forward\<close> does not read. The buffer \<open>tau_system\<close> is
  written and never read: the constructor's one-dimensional value is kept as its
  \<open>1 \<times> n\<close> view.
\<close>

record cell =
  input_size :: nat
  hidden_size :: nat
  sparsity_mask :: "real tensor option"
  mode :: string
  neuromod_network_dims :: "nat list option"
  backbone :: "module list option"
  backbone_layers :: int
  ff1 :: linear
  w_tau :: "real tensor option"
  cell_A :: "real tensor option"
  neuromod :: "network option"
  ff2 :: "linear option"
  time_a :: "linear option"
  time_b :: "linear option"
  tau_system :: "ext tensor"
  training :: bool

text \<open>The argument \<open>input\<close> of \<open>forward\<close>: a tensor or a tuple of tensors.\<close>

datatype input = Single targ | Tuple "targ list"

definition attr :: "'a option \<Rightarrow> error + 'a" where
  "attr v = (case v of None \<Rightarrow> Inl AttributeError | Some x \<Rightarrow> Inr x)"

definition item :: "'a list \<Rightarrow> nat \<Rightarrow> error + 'a" where
  "item xs i = (if i < length xs then Inr (xs ! i) else Inl IndexError)"

section \<open>forward\<close>

text \<open>Lines 182 to 187: the policy input is concatenated with the hidden state.\<close>

definition concat_input :: "cell \<Rightarrow> input \<Rightarrow> targ \<Rightarrow> error + real tensor" where
  "concat_input c inp hx =
     (if mode c = ''neuromodulated''
      then (case inp of
              Tuple xs \<Rightarrow> bindE (item xs 0) (\<lambda>p. cat_dim1 p hx)
            | Single x \<Rightarrow> Inl AssertionError)
      else (case inp of
              Single x \<Rightarrow> cat_dim1 x hx
            | Tuple xs \<Rightarrow> Inl TypeError))"

text \<open>Lines 189 and 190.\<close>

definition run_backbone :: "cell \<Rightarrow> real tensor \<Rightarrow> real tensor gen" where
  "run_backbone c x g =
     (if backbone_layers c > 0
      then (case backbone c of
              None \<Rightarrow> (Inl TypeError, g)
            | Some ms \<Rightarrow> call_sequential ms x g)
      else (Inr x, g))"

text \<open>
  Lines 192 to 195 and 226 to 229: the affine projection, with the weight multiplied
  by the sparsity mask when there is one.
\<close>

definition masked_linear :: "real tensor option \<Rightarrow> linear \<Rightarrow> real tensor \<Rightarrow> error + real tensor" where
  "masked_linear smask l x =
     (case smask of
        Some m \<Rightarrow> bindE (bop (*) (weight l) m) (\<lambda>w. linear x w (bias l))
      | None \<Rightarrow> call_linear l x)"

text \<open>
  The expression of lines 199 to 204 and of lines 213 to 218,
  \<open>-A * exp(-ts * (abs(w_tau) + abs(d))) * ff1 + A\<close>, where \<open>d\<close> is \<open>ff1\<close> in mode
  \<open>pure\<close> and the neuromodulation signal in mode \<open>neuromodulated\<close>.
\<close>

definition closed_form ::
  "real tensor \<Rightarrow> real tensor \<Rightarrow> real tensor \<Rightarrow> real tensor \<Rightarrow> real tensor \<Rightarrow> error + real tensor" where
  "closed_form a w ts d f1 =
     bindE (bop (+) (umap abs w) (umap abs d)) (\<lambda>s.
     bindE (bop (*) (umap uminus ts) s) (\<lambda>p.
     bindE (bop (*) (umap uminus a) (umap exp p)) (\<lambda>m1.
     bindE (bop (*) m1 f1) (\<lambda>m2.
     bop (+) m2 a))))"

text \<open>Lines 209 and 223: \<open>1.0 / (abs(w_tau) + abs(d))\<close>.\<close>

definition tau_of :: "real tensor \<Rightarrow> real tensor \<Rightarrow> error + ext tensor" where
  "tau_of w d = bindE (bop (+) (umap abs w) (umap abs d)) (\<lambda>s. Inr (umap recip s))"

text \<open>Lines 197 to 209: the new hidden state and the new \<open>tau_system\<close>.\<close>

definition pure_step ::
  "cell \<Rightarrow> real tensor \<Rightarrow> real tensor \<Rightarrow> error + real tensor \<times> ext tensor" where
  "pure_step c f1 ts =
     bindE (attr (cell_A c)) (\<lambda>a.
     bindE (attr (w_tau c)) (\<lambda>w.
     bindE (closed_form a w ts f1 f1) (\<lambda>h.
     bindE (tau_of w f1) (\<lambda>t. Inr (h, t)))))"

text \<open>
  Line 211: \<open>self.neuromod(input[1])\<close>. The call may change the network object that
  the attribute \<open>neuromod\<close> refers to; the cell is returned with the network as the
  call leaves it.
\<close>

definition neuromod_signal :: "cell \<Rightarrow> input \<Rightarrow> rng \<Rightarrow> (error + targ) \<times> cell \<times> rng" where
  "neuromod_signal c inp g =
     (case attr (neuromod c) of
        Inl e \<Rightarrow> (Inl e, c, g)
      | Inr n \<Rightarrow>
          (case inp of
             Single x \<Rightarrow> (Inl AssertionError, c, g)
           | Tuple xs \<Rightarrow>
               (case item xs 1 of
                  Inl e \<Rightarrow> (Inl e, c, g)
                | Inr ni \<Rightarrow>
                    (case call_network n ni g of
                       (r, n', g') \<Rightarrow> (r, c\<lparr>neuromod := Some n'\<rparr>, g')))))"

text \<open>Lines 213 to 223.\<close>

definition neuromod_step ::
  "cell \<Rightarrow> real tensor \<Rightarrow> real tensor \<Rightarrow> real tensor \<Rightarrow> error + real tensor \<times> ext tensor" where
  "neuromod_step c sig f1 ts =
     bindE (attr (cell_A c)) (\<lambda>a.
     bindE (attr (w_tau c)) (\<lambda>w.
     bindE (closed_form a w ts sig f1) (\<lambda>h.
     bindE (tau_of w sig) (\<lambda>t. Inr (h, t)))))"

text \<open>Lines 225 to 238: the modes \<open>default\<close> and \<open>no_gate\<close>.\<close>

definition cfc_step ::
  "cell \<Rightarrow> real tensor \<Rightarrow> real tensor \<Rightarrow> real tensor \<Rightarrow> error + real tensor" where
  "cfc_step c x f1 ts =
     bindE (attr (ff2 c)) (\<lambda>l2.
     bindE (masked_linear (sparsity_mask c) l2 x) (\<lambda>f2.
     bindE (attr (time_a c)) (\<lambda>la.
     bindE (call_linear la x) (\<lambda>t_a.
     bindE (attr (time_b c)) (\<lambda>lb.
     bindE (call_linear lb x) (\<lambda>t_b.
     bindE (bop (*) t_a ts) (\<lambda>m.
     bindE (bop (+) m t_b) (\<lambda>s.
       if mode c = ''no_gate''
       then bindE (bop (*) (umap sigmoid s) (umap tanh f2)) (\<lambda>p.
            bop (+) (umap tanh f1) p)
       else bindE (bop (*) (umap tanh f1) (umap (\<lambda>v. 1 - v) (umap sigmoid s))) (\<lambda>p1.
            bindE (bop (*) (umap sigmoid s) (umap tanh f2)) (\<lambda>p2.
            bop (+) p1 p2))))))))))"

text \<open>
  \<open>forward\<close> returns the raised exception or the returned pair, the cell as the call
  leaves it, and the generator as the call leaves it. The time span \<open>ts\<close> only
  occurs in broadcasts against two-dimensional tensors, so its view is used.
\<close>

definition forward ::
  "cell \<Rightarrow> input \<Rightarrow> targ \<Rightarrow> targ \<Rightarrow> rng
     \<Rightarrow> (error + real tensor \<times> real tensor) \<times> cell \<times> rng" where
  "forward c inp hx ts g =
     (case concat_input c inp hx of
        Inl e \<Rightarrow> (Inl e, c, g)
      | Inr x0 \<Rightarrow>
     (case run_backbone c x0 g of
        (Inl e, g1) \<Rightarrow> (Inl e, c, g1)
      | (Inr x, g1) \<Rightarrow>
     (case masked_linear (sparsity_mask c) (ff1 c) x of
        Inl e \<Rightarrow> (Inl e, c, g1)
      | Inr f1 \<Rightarrow>
          if mode c = ''pure'' then
            (case pure_step c f1 (view2 ts) of
               Inl e \<Rightarrow> (Inl e, c, g1)
             | Inr (new_hidden, tau) \<Rightarrow>
                 (Inr (new_hidden, new_hidden), c\<lparr>tau_system := tau\<rparr>, g1))
          else if mode c = ''neuromodulated'' then
            (case neuromod_signal c inp g1 of
               (Inl e, c1, g2) \<Rightarrow> (Inl e, c1, g2)
             | (Inr sig, c1, g2) \<Rightarrow>
                 (case neuromod_step c1 (view2 sig) f1 (view2 ts) of
                    Inl e \<Rightarrow> (Inl e, c1, g2)
                  | Inr (new_hidden, tau) \<Rightarrow>
                      (Inr (new_hidden, new_hidden), c1\<lparr>tau_system := tau\<rparr>, g2)))
          else
            (case cfc_step c x f1 (view2 ts) of
               Inl e \<Rightarrow> (Inl e, c, g1)
             | Inr new_hidden \<Rightarrow> (Inr (new_hidden, new_hidden), c, g1)))))"

section \<open>The shape invariant of a cell\<close>

text \<open>
  What the constructor establishes about the shapes of the parameters and what training
  preserves, since gradient steps change the entries of a parameter and never its shape.
  For a callable that is not a \<open>Sequential\<close> the invariant is the contract on its
  next call: a two-dimensional input of the right width gives a two-dimensional output
  with as many rows and \<open>hidden_size\<close> columns.
\<close>

definition wf_linear :: "nat \<Rightarrow> nat \<Rightarrow> linear \<Rightarrow> bool" where
  "wf_linear n_in n_out l = (has_shape n_out n_in (weight l) \<and> length (bias l) = n_out)"

fun wf_modules :: "nat \<Rightarrow> module list \<Rightarrow> nat \<Rightarrow> bool" where
  "wf_modules n [] m = (n = m)"
| "wf_modules n (LinearM l # ms) m =
     (wf_linear n (nrows (weight l)) l \<and> wf_modules (nrows (weight l)) ms m)"
| "wf_modules n (ActivationM f # ms) m = wf_modules n ms m"
| "wf_modules n (DropoutM p train # ms) m = (0 \<le> p \<and> p \<le> 1 \<and> wf_modules n ms m)"

fun wf_network :: "nat \<Rightarrow> nat \<Rightarrow> network \<Rightarrow> bool" where
  "wf_network n m (Sequential ms) = wf_modules n ms m"
| "wf_network n m (Callable f) =
     (\<forall>x g. wf_tensor x \<and> ncols x = n \<longrightarrow>
        (\<exists>y n' g'. f (T2 x) g = (Inr (T2 y), n', g') \<and> has_shape (nrows x) m y))"

definition cat_shape :: "cell \<Rightarrow> nat" where
  "cat_shape c = ncols (weight (ff1 c))"

definition allowed_modes :: "string list" where
  "allowed_modes = [''default'', ''pure'', ''no_gate'', ''neuromodulated'']"

definition wf_cell :: "cell \<Rightarrow> bool" where
  "wf_cell c =
     (mode c \<in> set allowed_modes
      \<and> (if backbone_layers c > 0
         then (case backbone c of
                 None \<Rightarrow> False
               | Some ms \<Rightarrow> wf_modules (input_size c + hidden_size c) ms (cat_shape c))
         else cat_shape c = input_size c + hidden_size c)
      \<and> wf_linear (cat_shape c) (hidden_size c) (ff1 c)
      \<and> (case sparsity_mask c of
            None \<Rightarrow> True
          | Some m \<Rightarrow> has_shape (hidden_size c) (cat_shape c) m)
      \<and> (if mode c = ''pure'' \<or> mode c = ''neuromodulated''
         then (case w_tau c of None \<Rightarrow> False | Some w \<Rightarrow> has_shape 1 (hidden_size c) w)
            \<and> (case cell_A c of None \<Rightarrow> False | Some a \<Rightarrow> has_shape 1 (hidden_size c) a)
         else (case ff2 c of None \<Rightarrow> False | Some l \<Rightarrow> wf_linear (cat_shape c) (hidden_size c) l)
            \<and> (case time_a c of None \<Rightarrow> False | Some l \<Rightarrow> wf_linear (cat_shape c) (hidden_size c) l)
            \<and> (case time_b c of None \<Rightarrow> False | Some l \<Rightarrow> wf_linear (cat_shape c) (hidden_size c) l))
      \<and> (if mode c = ''neuromodulated''
         then (case neuromod_network_dims c of
                 None \<Rightarrow> False
               | Some ds \<Rightarrow> ds \<noteq> [] \<and> last ds = hidden_size c
                   \<and> (case neuromod c of
                         None \<Rightarrow> False
                       | Some n \<Rightarrow> wf_network (hd ds) (hidden_size c) n))
         else True))"

section \<open>The affine projection, entry by entry\<close>

text \<open>
  The projection as the specification words it: the entry \<open>(i, j)\<close> of \<open>affine(x)\<close>
  is the bias plus the sum of the inputs times the weights, where the weight is the raw
  weight or, with a sparsity mask, the product of the raw weight and the mask.
\<close>

definition masked_weight :: "real tensor option \<Rightarrow> real tensor \<Rightarrow> nat \<Rightarrow> nat \<Rightarrow> real" where
  "masked_weight sm W j k = (case sm of None \<Rightarrow> el W j k | Some M \<Rightarrow> el W j k * el M j k)"

definition affine :: "real tensor option \<Rightarrow> linear \<Rightarrow> real tensor \<Rightarrow> nat \<Rightarrow> nat \<Rightarrow> real" where
  "affine sm l x i j =
     (\<Sum>k<ncols x. el x i k * masked_weight sm (weight l) j k) + bias l ! j"


text \<open>
  The mixing of the two heads as the specification words it: for \<open>no_gate\<close>,
  \<open>ff1 + t_interp * ff2\<close>; for \<open>default\<close>, \<open>ff1 * (1 - t_interp) + t_interp * ff2\<close>.
\<close>

definition gate_mix :: "string \<Rightarrow> real \<Rightarrow> real \<Rightarrow> real \<Rightarrow> real" where
  "gate_mix m f1 f2 t = (if m = ''no_gate'' then f1 + t * f2 else f1 * (1 - t) + t * f2)"

section \<open>Inputs of forward\<close>

text \<open>Lines 182 to 190 together: the feature vector \<open>x\<close> that the heads read.\<close>

definition features :: "cell \<Rightarrow> input \<Rightarrow> targ \<Rightarrow> real tensor gen" where
  "features c inp hx g =
     (case concat_input c inp hx of
        Inl e \<Rightarrow> (Inl e, g)
      | Inr x0 \<Rightarrow> run_backbone c x0 g)"

text \<open>A two-dimensional tensor argument of a given shape.\<close>

definition shaped :: "nat \<Rightarrow> nat \<Rightarrow> targ \<Rightarrow> bool" where
  "shaped r c a = (case a of T2 t \<Rightarrow> has_shape r c t | T1 v vs \<Rightarrow> False | T0 v \<Rightarrow> False)"

text \<open>
  Correctly shaped inputs for a batch of \<open>B\<close> rows: a tensor of shape
  \<open>(B, input_size)\<close>, or in mode \<open>neuromodulated\<close> a tuple of such a tensor and a
  tensor of shape \<open>(B, neuromod_network_dims[0])\<close>.
\<close>

definition good_input :: "cell \<Rightarrow> nat \<Rightarrow> input \<Rightarrow> bool" where
  "good_input c B inp =
     (case inp of
        Single x \<Rightarrow> mode c \<noteq> ''neuromodulated'' \<and> shaped B (input_size c) x
      | Tuple xs \<Rightarrow>
          mode c = ''neuromodulated'' \<and> 2 \<le> length xs
          \<and> shaped B (input_size c) (xs ! 0)
          \<and> (case neuromod_network_dims c of
                None \<Rightarrow> False
              | Some ds \<Rightarrow> shaped B (hd ds) (xs ! 1)))"

text \<open>The policy input: the tensor itself, or the first component of the tuple.\<close>

definition policy_input :: "input \<Rightarrow> targ" where
  "policy_input inp = (case inp of Single x \<Rightarrow> x | Tuple xs \<Rightarrow> xs ! 0)"


section \<open>Example cells and generators\<close>

text \<open>
  A cell in mode \<open>pure\<close> with one input, one hidden unit and no backbone:
  \<open>ff1(x) = x\<^sub>0 + x\<^sub>1\<close>, \<open>w_tau = 0\<close>, \<open>A = 1\<close>.
\<close>

definition ex_pure :: cell where
  "ex_pure =
     \<lparr>input_size = 1, hidden_size = 1, sparsity_mask = None, mode = ''pure'',
      neuromod_network_dims = None, backbone = None, backbone_layers = 0,
      ff1 = Linear (Tensor 2 [[1, 1]]) [0],
      w_tau = Some (Tensor 1 [[0]]), cell_A = Some (Tensor 1 [[1]]),
      neuromod = None, ff2 = None, time_a = None, time_b = None,
      tau_system = Tensor 1 [[Finite 1]], training = True\<rparr>"


text \<open>A generator whose first sample is 0 and whose later samples are 3/4.\<close>

definition ex_rng :: rng where
  "ex_rng k = (if k = 0 then 0 else 3 / 4)"

text \<open>
  A cell in mode \<open>neuromodulated\<close> with the network
  \<open>Sequential(Linear(1, 1), ReLU())\<close> of weight 2 and bias 0, as
  \<open>CfCCell(1, 1, mode="neuromodulated", backbone_layers=0, neuromod_network_dims=[1, 1],
  neuromod_network_activation=nn.ReLU)\<close> builds it.
\<close>

definition ex_neuromod :: cell where
  "ex_neuromod =
     \<lparr>input_size = 1, hidden_size = 1, sparsity_mask = None, mode = ''neuromodulated'',
      neuromod_network_dims = Some [1, 1], backbone = None, backbone_layers = 0,
      ff1 = Linear (Tensor 2 [[1, 1]]) [0],
      w_tau = Some (Tensor 1 [[0]]), cell_A = Some (Tensor 1 [[1]]),
      neuromod = Some (Sequential [LinearM (Linear (Tensor 1 [[2]]) [0]), ActivationM ReLU]),
      ff2 = None, time_a = None, time_b = None,
      tau_system = Tensor 1 [[Finite 1]], training = True\<rparr>"

text \<open>
  A cell in mode \<open>no_gate\<close> with one input, one hidden unit and no backbone.
\<close>

definition ex_no_gate :: cell where
  "ex_no_gate =
     \<lparr>input_size = 1, hidden_size = 1, sparsity_mask = None, mode = ''no_gate'',
      neuromod_network_dims = None, backbone = None, backbone_layers = 0,
      ff1 = Linear (Tensor 2 [[1, 1]]) [0],
      w_tau = None, cell_A = None, neuromod = None,
      ff2 = Some (Linear (Tensor 2 [[1, 0]]) [0]),
      time_a = Some (Linear (Tensor 2 [[1, 1]]) [1]),
      time_b = Some (Linear (Tensor 2 [[0, 0]]) [0]),
      tau_system = Tensor 1 [[Finite 1]], training = True\<rparr>"

section \<open>Lemmas on tensors\<close>

lemma has_shape_bel:
  "has_shape r c t \<Longrightarrow> i < r \<Longrightarrow> j < c \<Longrightarrow> bel t i j = el t i j"
  by (auto simp: has_shape_def bel_def)

lemma has_shape_bcast: "has_shape r c t \<Longrightarrow> bcast_to r c t"
  by (simp add: has_shape_def bcast_to_def)

lemma row_bel:
  "has_shape 1 c t \<Longrightarrow> j < c \<Longrightarrow> bel t i j = el t 0 j"
  by (auto simp: has_shape_def bel_def)

lemma row_bcast: "has_shape 1 c t \<Longrightarrow> bcast_to r c t"
  by (simp add: has_shape_def bcast_to_def)

lemma umap_shape [simp]: "has_shape r c (umap f t) = has_shape r c t"
  by (auto simp: has_shape_def umap_def wf_tensor_def nrows_def list_all_iff)

lemma umap_bcast [simp]: "bcast_to r c (umap f t) = bcast_to r c t"
  by (auto simp: bcast_to_def umap_def wf_tensor_def nrows_def list_all_iff)

lemma umap_bel:
  "bcast_to r c t \<Longrightarrow> i < r \<Longrightarrow> j < c \<Longrightarrow> bel (umap f t) i j = f (bel t i j)"
  by (auto simp: bcast_to_def umap_def wf_tensor_def nrows_def list_all_iff bel_def el_def)

lemma umap_el:
  "has_shape r c t \<Longrightarrow> i < r \<Longrightarrow> j < c \<Longrightarrow> el (umap f t) i j = f (el t i j)"
  by (auto simp: has_shape_def umap_def wf_tensor_def nrows_def list_all_iff el_def)

lemma expand_list_len:
  "length xs = n \<or> length xs = 1 \<Longrightarrow> length (expand_list n xs) = n"
  by (auto simp: expand_list_def)

lemma expand_list_nth:
  "length xs = n \<or> length xs = 1 \<Longrightarrow> i < n \<Longrightarrow>
   expand_list n xs ! i = xs ! (if length xs = 1 then 0 else i)"
  by (auto simp: expand_list_def)

lemma expand_rows:
  assumes "bcast_to r c t"
  shows "length (rws (expand r c t)) = r"
  using assms by (auto simp: expand_def bcast_to_def nrows_def intro!: expand_list_len)

lemma expand_row:
  assumes "bcast_to r c t" "i < r"
  shows "rws (expand r c t) ! i = expand_list c (rws t ! (if nrows t = 1 then 0 else i))"
proof -
  have l: "length (map (expand_list c) (rws t)) = r \<or> length (map (expand_list c) (rws t)) = 1"
    using assms by (auto simp: bcast_to_def nrows_def)
  have k: "(if nrows t = 1 then 0 else i) < length (rws t)"
    using assms by (auto simp: bcast_to_def nrows_def)
  show ?thesis
    using expand_list_nth [OF l assms(2)] k by (simp add: expand_def nrows_def)
qed

lemma bcast_row_len:
  assumes "bcast_to r c t" "i < r"
  shows "length (rws t ! (if nrows t = 1 then 0 else i)) = ncols t"
  using assms by (auto simp: bcast_to_def nrows_def wf_tensor_def list_all_length)

lemma expand_row_len:
  assumes "bcast_to r c t" "i < r"
  shows "length (rws (expand r c t) ! i) = c"
proof -
  have "length (rws t ! (if nrows t = 1 then 0 else i)) = c
      \<or> length (rws t ! (if nrows t = 1 then 0 else i)) = 1"
    using bcast_row_len [OF assms] assms(1) by (auto simp: bcast_to_def)
  then show ?thesis
    by (simp only: expand_row [OF assms] expand_list_len)
qed

lemma expand_el:
  assumes "bcast_to r c t" "i < r" "j < c"
  shows "rws (expand r c t) ! i ! j = bel t i j"
proof -
  have "length (rws t ! (if nrows t = 1 then 0 else i)) = c
      \<or> length (rws t ! (if nrows t = 1 then 0 else i)) = 1"
    using bcast_row_len [OF assms(1,2)] assms(1) by (auto simp: bcast_to_def)
  from expand_list_nth [OF this assms(3)] show ?thesis
    by (simp only: expand_row [OF assms(1,2)] bcast_row_len [OF assms(1,2)] bel_def el_def)
qed

lemma bop_bcast:
  assumes a: "bcast_to r c a" and b: "bcast_to r c b"
    and rr: "nrows a = r \<or> nrows b = r" and cc: "ncols a = c \<or> ncols b = c"
  shows "\<exists>t. bop f a b = Inr t \<and> has_shape r c t
           \<and> (\<forall>i<r. \<forall>j<c. el t i j = f (bel a i j) (bel b i j))"
proof -
  have dr: "bdim (nrows a) (nrows b) = Some r"
    using a b rr by (auto simp: bdim_def bcast_to_def)
  have dc: "bdim (ncols a) (ncols b) = Some c"
    using a b cc by (auto simp: bdim_def bcast_to_def)
  let ?t = "Tensor c (map2 (map2 f) (rws (expand r c a)) (rws (expand r c b)))"
  have eq: "bop f a b = Inr ?t" by (simp add: bop_def dr dc)
  have len: "nrows ?t = r"
    by (simp add: nrows_def expand_rows [OF a] expand_rows [OF b])
  have row: "rws ?t ! i = map2 f (rws (expand r c a) ! i) (rws (expand r c b) ! i)"
    if "i < r" for i
    using that by (simp add: expand_rows [OF a] expand_rows [OF b])
  have wf: "wf_tensor ?t"
    unfolding wf_tensor_def list_all_length
  proof (intro allI impI)
    fix i assume "i < length (rws ?t)"
    then have i: "i < r" by (simp add: expand_rows [OF a] expand_rows [OF b])
    show "length (rws ?t ! i) = ncols ?t"
      by (simp only: row [OF i])
        (simp add: expand_row_len [OF a i] expand_row_len [OF b i])
  qed
  have els: "el ?t i j = f (bel a i j) (bel b i j)" if i: "i < r" and j: "j < c" for i j
    unfolding el_def
    by (simp only: row [OF i])
      (simp add: expand_row_len [OF a i] expand_row_len [OF b i] j
        expand_el [OF a i j] expand_el [OF b i j])
  show ?thesis using eq len wf els by (auto simp: has_shape_def)
qed

section \<open>Shapes and entries of the tensor operations\<close>

lemma has_shape_row:
  "has_shape r c t \<Longrightarrow> i < r \<Longrightarrow> length (rws t ! i) = c"
  by (auto simp: has_shape_def wf_tensor_def nrows_def list_all_length)

lemma has_shapeI:
  "length rs = r \<Longrightarrow> (\<And>i. i < r \<Longrightarrow> length (rs ! i) = c) \<Longrightarrow> has_shape r c (Tensor c rs)"
  by (auto simp: has_shape_def wf_tensor_def nrows_def list_all_length)

lemma cat1_shape:
  assumes a: "has_shape r n a" and b: "has_shape r m b"
  shows "\<exists>t. cat1 a b = Inr t \<and> has_shape r (n + m) t
           \<and> (\<forall>i<r. rws t ! i = rws a ! i @ rws b ! i)"
proof -
  have la: "length (rws a) = r" and lb: "length (rws b) = r"
    using a b by (auto simp: has_shape_def nrows_def)
  have ca: "ncols a = n" and cb: "ncols b = m"
    using a b by (auto simp: has_shape_def)
  let ?rs = "map2 (@) (rws a) (rws b)"
  have eq: "cat1 a b = Inr (Tensor (n + m) ?rs)"
    by (simp add: cat1_def nrows_def la lb ca cb)
  have row: "?rs ! i = rws a ! i @ rws b ! i" if "i < r" for i
    using that by (simp add: la lb)
  have "has_shape r (n + m) (Tensor (n + m) ?rs)"
  proof (rule has_shapeI)
    show "length ?rs = r" by (simp add: la lb)
    fix i assume i: "i < r"
    show "length (?rs ! i) = n + m"
      by (simp only: row [OF i]) (simp add: has_shape_row [OF a i] has_shape_row [OF b i])
  qed
  with eq row show ?thesis by simp
qed

lemma dot_sum:
  assumes "length xs = n" "length ws = n"
  shows "dot xs ws = (\<Sum>k<n. xs ! k * ws ! k)"
proof -
  have "dot xs ws = (\<Sum>k = 0..<n. map2 (*) xs ws ! k)"
    unfolding dot_def by (simp add: sum_list_sum_nth assms)
  also have "\<dots> = (\<Sum>k = 0..<n. xs ! k * ws ! k)"
    by (rule sum.cong) (simp_all add: assms)
  finally show ?thesis by (simp add: lessThan_atLeast0)
qed

lemma linear_shape:
  assumes x: "has_shape r n x" and W: "has_shape m n W" and b: "length b = m"
  shows "\<exists>y. linear x W b = Inr y \<and> has_shape r m y
           \<and> (\<forall>i<r. \<forall>j<m. el y i j = (\<Sum>k<n. el x i k * el W j k) + b ! j)"
proof -
  have lx: "length (rws x) = r" and lW: "length (rws W) = m"
    using x W by (auto simp: has_shape_def nrows_def)
  have cx: "ncols x = n" and cW: "ncols W = n"
    using x W by (auto simp: has_shape_def)
  let ?row = "\<lambda>r. map2 (\<lambda>w bj. dot r w + bj) (rws W) b"
  let ?y = "Tensor m (map ?row (rws x))"
  have eq: "linear x W b = Inr ?y"
    by (simp add: linear_def cx cW b nrows_def lW)
  have shape: "has_shape r m ?y"
    by (rule has_shapeI) (simp_all add: lx lW b)
  have els: "el ?y i j = (\<Sum>k<n. el x i k * el W j k) + b ! j" if i: "i < r" and j: "j < m" for i j
  proof -
    have "el ?y i j = dot (rws x ! i) (rws W ! j) + b ! j"
      using i j by (simp add: el_def lx lW b)
    also have "dot (rws x ! i) (rws W ! j) = (\<Sum>k<n. rws x ! i ! k * (rws W ! j ! k))"
      by (rule dot_sum) (simp_all add: has_shape_row [OF x i] has_shape_row [OF W j])
    finally show ?thesis by (simp add: el_def)
  qed
  from eq shape els show ?thesis by blast
qed

lemma masked_linear_affine:
  assumes x: "has_shape r n x" and l: "wf_linear n m l"
    and sm: "case sm of None \<Rightarrow> True | Some M \<Rightarrow> has_shape m n M"
  shows "\<exists>y. masked_linear sm l x = Inr y \<and> has_shape r m y
           \<and> (\<forall>i<r. \<forall>j<m. el y i j = affine sm l x i j)"
proof (cases sm)
  case None
  have cx: "ncols x = n" using x by (simp add: has_shape_def)
  from l have W: "has_shape m n (weight l)" and b: "length (bias l) = m"
    by (simp_all add: wf_linear_def)
  from linear_shape [OF x W b] None cx show ?thesis
    by (simp add: masked_linear_def call_linear_def affine_def masked_weight_def)
next
  case (Some M)
  have cx: "ncols x = n" using x by (simp add: has_shape_def)
  from l have W: "has_shape m n (weight l)" and b: "length (bias l) = m"
    by (simp_all add: wf_linear_def)
  from sm Some have M: "has_shape m n M" by simp
  from bop_bcast [OF has_shape_bcast [OF W] has_shape_bcast [OF M], of "(*)"] W
  obtain w where w: "bop (*) (weight l) M = Inr w" "has_shape m n w"
    and wel: "\<And>j k. j < m \<Longrightarrow> k < n \<Longrightarrow> el w j k = bel (weight l) j k * bel M j k"
    by (auto simp: has_shape_def)
  from linear_shape [OF x w(2) b]
  obtain y where y: "linear x w (bias l) = Inr y" "has_shape r m y"
    and yel: "\<And>i j. i < r \<Longrightarrow> j < m \<Longrightarrow> el y i j = (\<Sum>k<n. el x i k * el w j k) + bias l ! j"
    by blast
  have "el y i j = affine sm l x i j" if i: "i < r" and j: "j < m" for i j
  proof -
    have "(\<Sum>k<n. el x i k * el w j k) = (\<Sum>k<n. el x i k * (el (weight l) j k * el M j k))"
      by (rule sum.cong) (simp_all add: wel j has_shape_bel [OF W j] has_shape_bel [OF M j])
    then show ?thesis
      by (simp add: yel i j affine_def masked_weight_def Some cx)
  qed
  with y w show ?thesis by (simp add: masked_linear_def Some bindE_def)
qed

lemma rand_shape: "has_shape r c (fst (rand r c g))"
  unfolding rand_def fst_conv by (rule has_shapeI) simp_all

lemma dropout_shape:
  assumes p: "0 \<le> p" "p \<le> 1" and x: "has_shape r c x"
  shows "\<exists>y g'. dropout p tr x g = (Inr y, g') \<and> has_shape r c y"
proof -
  have rc: "nrows x = r" "ncols x = c" using x by (simp_all add: has_shape_def)
  let ?n = "umap (\<lambda>v. v / (1 - p)) (fst (bernoulli_fill r c (1 - p) g))"
  have n: "has_shape r c ?n"
    by (simp add: bernoulli_fill_def rand_shape)
  from bop_bcast [OF has_shape_bcast [OF x] has_shape_bcast [OF n], of "(*)"] rc
  obtain y where "bop (*) x ?n = Inr y" "has_shape r c y" by auto
  then show ?thesis using p x by (auto simp: dropout_def rc)
qed

lemma call_sequential_shape:
  "wf_modules n ms m \<Longrightarrow> has_shape r n x \<Longrightarrow>
   \<exists>y g'. call_sequential ms x g = (Inr y, g') \<and> has_shape r m y"
proof (induction ms arbitrary: n x g)
  case Nil
  then show ?case by simp
next
  case (Cons a ms)
  show ?case
  proof (cases a)
    case (LinearM l)
    with Cons.prems have l: "wf_linear n (nrows (weight l)) l"
      and rest: "wf_modules (nrows (weight l)) ms m" by simp_all
    from l have W: "has_shape (nrows (weight l)) n (weight l)"
      and b: "length (bias l) = nrows (weight l)" by (simp_all add: wf_linear_def)
    from linear_shape [OF Cons.prems(2) W b]
    obtain y where y: "linear x (weight l) (bias l) = Inr y" "has_shape r (nrows (weight l)) y"
      by blast
    from Cons.IH [OF rest y(2)] y(1) LinearM show ?thesis
      by (simp add: call_linear_def)
  next
    case (ActivationM f)
    with Cons.prems have rest: "wf_modules n ms m" by simp
    have "has_shape r n (umap f x)" using Cons.prems(2) by simp
    from Cons.IH [OF rest this] ActivationM show ?thesis by simp
  next
    case (DropoutM p tr)
    with Cons.prems have p: "0 \<le> p" "p \<le> 1" and rest: "wf_modules n ms m" by simp_all
    from dropout_shape [OF p Cons.prems(2)]
    obtain y g' where y: "dropout p tr x g = (Inr y, g')" "has_shape r n y" by blast
    from Cons.IH [OF rest y(2)] y(1) DropoutM show ?thesis by simp
  qed
qed


lemma bop_bel:
  assumes a: "bcast_to r c a" and b: "bcast_to r c b"
  shows "\<exists>t. bop f a b = Inr t \<and> bcast_to r c t
           \<and> (nrows a = r \<or> nrows b = r \<longrightarrow> nrows t = r)
           \<and> (ncols a = c \<or> ncols b = c \<longrightarrow> ncols t = c)
           \<and> (\<forall>i<r. \<forall>j<c. bel t i j = f (bel a i j) (bel b i j))"
proof -
  define rt where "rt = (if nrows a = r \<or> nrows b = r then r else 1)"
  define ct where "ct = (if ncols a = c \<or> ncols b = c then c else 1)"
  have a': "bcast_to rt ct a" and b': "bcast_to rt ct b"
    using a b by (auto simp: bcast_to_def rt_def ct_def)
  have rr: "nrows a = rt \<or> nrows b = rt" and cc: "ncols a = ct \<or> ncols b = ct"
    using a b by (auto simp: bcast_to_def rt_def ct_def)
  from bop_bcast [OF a' b' rr cc, of f]
  obtain t where t: "bop f a b = Inr t" and sh: "has_shape rt ct t"
    and els: "\<And>i j. i < rt \<Longrightarrow> j < ct \<Longrightarrow> el t i j = f (bel a i j) (bel b i j)"
    by blast
  have nt: "nrows t = rt" "ncols t = ct" "wf_tensor t"
    using sh by (simp_all add: has_shape_def)
  have bc: "bcast_to r c t"
    using nt by (auto simp: bcast_to_def rt_def ct_def)
  have bels: "bel t i j = f (bel a i j) (bel b i j)" if i: "i < r" and j: "j < c" for i j
  proof -
    let ?i = "if rt = 1 then 0 else i" and ?j = "if ct = 1 then 0 else j"
    have i0: "?i < rt" using i by (auto simp: rt_def)
    have j0: "?j < ct" using j by (auto simp: ct_def)
    have ea: "bel a ?i ?j = bel a i j"
      using a by (auto simp: bel_def bcast_to_def rt_def ct_def)
    have eb: "bel b ?i ?j = bel b i j"
      using b by (auto simp: bel_def bcast_to_def rt_def ct_def)
    have "bel t i j = el t ?i ?j" by (simp add: bel_def nt)
    also have "\<dots> = f (bel a ?i ?j) (bel b ?i ?j)" by (rule els [OF i0 j0])
    finally show ?thesis by (simp only: ea eb)
  qed
  have n1: "nrows a = r \<or> nrows b = r \<longrightarrow> nrows t = r"
    using nt by (simp add: rt_def)
  have n2: "ncols a = c \<or> ncols b = c \<longrightarrow> ncols t = c"
    using nt by (simp add: ct_def)
  show ?thesis
    using t bc n1 n2 bels by blast
qed

lemma bcast_full: "bcast_to r c t \<Longrightarrow> nrows t = r \<Longrightarrow> ncols t = c \<Longrightarrow> has_shape r c t"
  by (simp add: bcast_to_def has_shape_def)

lemma closed_form_el:
  assumes a: "bcast_to r h a" and w: "bcast_to r h w" and ts: "bcast_to r h ts"
    and d: "bcast_to r h d" and f1: "has_shape r h f1"
  shows "\<exists>y. closed_form a w ts d f1 = Inr y \<and> has_shape r h y
           \<and> (\<forall>i<r. \<forall>j<h. el y i j =
                 - bel a i j * exp (- bel ts i j * (\<bar>bel w i j\<bar> + \<bar>bel d i j\<bar>)) * el f1 i j
                 + bel a i j)"
proof -
  have aw: "bcast_to r h (umap abs w)" and ad: "bcast_to r h (umap abs d)"
    and nts: "bcast_to r h (umap uminus ts)" and na: "bcast_to r h (umap uminus a)"
    using a w ts d by simp_all
  from bop_bel [OF aw ad, of "(+)"]
  obtain s where s: "bop (+) (umap abs w) (umap abs d) = Inr s" "bcast_to r h s"
    and sel0: "\<forall>i<r. \<forall>j<h. bel s i j = bel (umap abs w) i j + bel (umap abs d) i j"
    by blast
  from bop_bel [OF nts s(2), of "(*)"]
  obtain p where p: "bop (*) (umap uminus ts) s = Inr p" "bcast_to r h p"
    and pel0: "\<forall>i<r. \<forall>j<h. bel p i j = bel (umap uminus ts) i j * bel s i j"
    by blast
  have ep: "bcast_to r h (umap exp p)" using p(2) by simp
  from bop_bel [OF na ep, of "(*)"]
  obtain m1 where m1: "bop (*) (umap uminus a) (umap exp p) = Inr m1" "bcast_to r h m1"
    and m1el0: "\<forall>i<r. \<forall>j<h. bel m1 i j = bel (umap uminus a) i j * bel (umap exp p) i j"
    by blast
  have f1b: "bcast_to r h f1" and f1n: "nrows f1 = r" "ncols f1 = h"
    using f1 by (simp_all add: has_shape_def bcast_to_def)
  from bop_bel [OF m1(2) f1b, of "(*)"]
  obtain m2 where m2: "bop (*) m1 f1 = Inr m2" "bcast_to r h m2"
    and m2n: "nrows m1 = r \<or> nrows f1 = r \<longrightarrow> nrows m2 = r"
      "ncols m1 = h \<or> ncols f1 = h \<longrightarrow> ncols m2 = h"
    and m2el0: "\<forall>i<r. \<forall>j<h. bel m2 i j = bel m1 i j * bel f1 i j"
    by blast
  have m2s: "nrows m2 = r" "ncols m2 = h" using m2n f1n by simp_all
  from bop_bel [OF m2(2) a, of "(+)"]
  obtain y where y: "bop (+) m2 a = Inr y" "bcast_to r h y"
    and yn: "nrows m2 = r \<or> nrows a = r \<longrightarrow> nrows y = r"
      "ncols m2 = h \<or> ncols a = h \<longrightarrow> ncols y = h"
    and yel0: "\<forall>i<r. \<forall>j<h. bel y i j = bel m2 i j + bel a i j"
    by blast
  have ysz: "nrows y = r" "ncols y = h" using yn m2s by simp_all
  have ys: "has_shape r h y" by (rule bcast_full [OF y(2) ysz])
  have "el y i j = - bel a i j * exp (- bel ts i j * (\<bar>bel w i j\<bar> + \<bar>bel d i j\<bar>)) * el f1 i j
                 + bel a i j" if i: "i < r" and j: "j < h" for i j
  proof -
    have 1: "bel s i j = \<bar>bel w i j\<bar> + \<bar>bel d i j\<bar>"
      using sel0 i j by (simp add: umap_bel [OF w i j] umap_bel [OF d i j])
    have 2: "bel p i j = - bel ts i j * bel s i j"
      using pel0 i j by (simp add: umap_bel [OF ts i j])
    have 3: "bel m1 i j = - bel a i j * exp (bel p i j)"
      using m1el0 i j by (simp add: umap_bel [OF a i j] umap_bel [OF p(2) i j])
    have 4: "bel m2 i j = bel m1 i j * el f1 i j"
      using m2el0 i j by (simp add: has_shape_bel [OF f1 i j])
    have "bel y i j = bel m2 i j + bel a i j"
      using yel0 i j by blast
    then have 5: "el y i j = bel m2 i j + bel a i j"
      by (simp only: has_shape_bel [OF ys i j])
    show ?thesis by (simp only: 5 4 3 2 1)
  qed
  moreover have "closed_form a w ts d f1 = Inr y"
    by (simp add: closed_form_def bindE_def s p m1 m2 y)
  ultimately show ?thesis using ys by blast
qed

lemma tau_of_el:
  assumes w: "bcast_to r h w" and d: "bcast_to r h d"
  shows "\<exists>t. tau_of w d = Inr t \<and> bcast_to r h t
           \<and> (nrows w = r \<or> nrows d = r \<longrightarrow> nrows t = r)
           \<and> (ncols w = h \<or> ncols d = h \<longrightarrow> ncols t = h)
           \<and> (\<forall>i<r. \<forall>j<h. bel t i j = recip (\<bar>bel w i j\<bar> + \<bar>bel d i j\<bar>))"
proof -
  have aw: "bcast_to r h (umap abs w)" and ad: "bcast_to r h (umap abs d)"
    using w d by simp_all
  from bop_bel [OF aw ad, of "(+)"]
  obtain s where s: "bop (+) (umap abs w) (umap abs d) = Inr s" "bcast_to r h s"
    and n: "nrows (umap abs w) = r \<or> nrows (umap abs d) = r \<longrightarrow> nrows s = r"
      "ncols (umap abs w) = h \<or> ncols (umap abs d) = h \<longrightarrow> ncols s = h"
    and sel0: "\<forall>i<r. \<forall>j<h. bel s i j = bel (umap abs w) i j + bel (umap abs d) i j"
    by blast
  have eq: "tau_of w d = Inr (umap recip s)" by (simp add: tau_of_def bindE_def s)
  have bc: "bcast_to r h (umap recip s)" using s(2) by simp
  have n1: "nrows w = r \<or> nrows d = r \<longrightarrow> nrows (umap recip s) = r"
    using n(1) by (simp add: umap_def nrows_def)
  have n2: "ncols w = h \<or> ncols d = h \<longrightarrow> ncols (umap recip s) = h"
    using n(2) by (simp add: umap_def)
  have els: "bel (umap recip s) i j = recip (\<bar>bel w i j\<bar> + \<bar>bel d i j\<bar>)"
    if i: "i < r" and j: "j < h" for i j
    using sel0 i j
    by (simp add: umap_bel [OF s(2) i j] umap_bel [OF w i j] umap_bel [OF d i j])
  show ?thesis using eq bc n1 n2 els by blast
qed

section \<open>The feature vector of a well-formed cell\<close>

lemma wf_cell_ff1: "wf_cell c \<Longrightarrow> wf_linear (cat_shape c) (hidden_size c) (ff1 c)"
  by (simp add: wf_cell_def)

lemma wf_cell_mask:
  "wf_cell c \<Longrightarrow>
   (case sparsity_mask c of None \<Rightarrow> True | Some M \<Rightarrow> has_shape (hidden_size c) (cat_shape c) M)"
  by (simp add: wf_cell_def)

lemma wf_cell_backbone:
  "wf_cell c \<Longrightarrow>
   (if backbone_layers c > 0
    then (case backbone c of
            None \<Rightarrow> False
          | Some ms \<Rightarrow> wf_modules (input_size c + hidden_size c) ms (cat_shape c))
    else cat_shape c = input_size c + hidden_size c)"
  by (simp add: wf_cell_def)

lemma wf_cell_tau:
  "wf_cell c \<Longrightarrow> mode c = ''pure'' \<or> mode c = ''neuromodulated'' \<Longrightarrow>
   \<exists>a w. cell_A c = Some a \<and> w_tau c = Some w
        \<and> has_shape 1 (hidden_size c) a \<and> has_shape 1 (hidden_size c) w"
  by (auto simp: wf_cell_def split: option.splits)

lemma wf_cell_gates:
  "wf_cell c \<Longrightarrow> mode c \<noteq> ''pure'' \<Longrightarrow> mode c \<noteq> ''neuromodulated'' \<Longrightarrow>
   \<exists>l2 la lb. ff2 c = Some l2 \<and> time_a c = Some la \<and> time_b c = Some lb
        \<and> wf_linear (cat_shape c) (hidden_size c) l2
        \<and> wf_linear (cat_shape c) (hidden_size c) la
        \<and> wf_linear (cat_shape c) (hidden_size c) lb"
  by (auto simp: wf_cell_def split: option.splits)

lemma wf_cell_neuromod:
  "wf_cell c \<Longrightarrow> mode c = ''neuromodulated'' \<Longrightarrow>
   \<exists>ds n. neuromod_network_dims c = Some ds \<and> ds \<noteq> [] \<and> last ds = hidden_size c
        \<and> neuromod c = Some n \<and> wf_network (hd ds) (hidden_size c) n"
  by (auto simp: wf_cell_def split: option.splits)

lemma shaped_T2: "shaped r c a \<Longrightarrow> \<exists>t. a = T2 t \<and> has_shape r c t"
  by (cases a) (simp_all add: shaped_def)

lemma good_input_policy:
  "good_input c B inp \<Longrightarrow> shaped B (input_size c) (policy_input inp)"
  by (auto simp: good_input_def policy_input_def split: input.splits)

lemma concat_input_policy:
  "good_input c B inp \<Longrightarrow> concat_input c inp hx = cat_dim1 (policy_input inp) hx"
  by (auto simp: good_input_def policy_input_def concat_input_def item_def bindE_def
      split: input.splits)

lemma concat_input_good:
  assumes inp: "good_input c B inp" and hx: "shaped B (hidden_size c) hx"
  shows "\<exists>x0. concat_input c inp hx = Inr x0
            \<and> has_shape B (input_size c + hidden_size c) x0
            \<and> (\<forall>i<B. rws x0 ! i = rws (view2 (policy_input inp)) ! i @ rws (view2 hx) ! i)"
proof -
  from shaped_T2 [OF good_input_policy [OF inp]]
  obtain p where p: "policy_input inp = T2 p" "has_shape B (input_size c) p" by blast
  from shaped_T2 [OF hx] obtain h where h: "hx = T2 h" "has_shape B (hidden_size c) h"
    by blast
  have eq: "concat_input c inp hx = cat1 p h"
    by (simp add: concat_input_policy [OF inp] p(1) h(1) cat_dim1_def)
  from cat1_shape [OF p(2) h(2)] eq show ?thesis
    by (simp add: p(1) h(1) view2_def)
qed

lemma run_backbone_shape:
  assumes wf: "wf_cell c" and x0: "has_shape B (input_size c + hidden_size c) x0"
  shows "\<exists>x g'. run_backbone c x0 g = (Inr x, g') \<and> has_shape B (cat_shape c) x"
proof (cases "backbone_layers c > 0")
  case True
  with wf_cell_backbone [OF wf] obtain ms where ms: "backbone c = Some ms"
    "wf_modules (input_size c + hidden_size c) ms (cat_shape c)"
    by (auto split: option.splits)
  from call_sequential_shape [OF ms(2) x0] True ms(1) show ?thesis
    by (simp add: run_backbone_def)
next
  case False
  with wf_cell_backbone [OF wf] x0 show ?thesis
    by (simp add: run_backbone_def)
qed

lemma features_shape:
  assumes wf: "wf_cell c" and inp: "good_input c B inp" and hx: "shaped B (hidden_size c) hx"
  shows "\<exists>x g'. features c inp hx g = (Inr x, g') \<and> has_shape B (cat_shape c) x"
proof -
  from concat_input_good [OF inp hx] obtain x0 where
    x0: "concat_input c inp hx = Inr x0" "has_shape B (input_size c + hidden_size c) x0"
    by blast
  from run_backbone_shape [OF wf x0(2)] x0(1) show ?thesis
    by (simp add: features_def)
qed

section \<open>The result of forward, mode by mode\<close>

lemma forward_pure_eq:
  assumes "features c inp hx g = (Inr x, g')"
    and "masked_linear (sparsity_mask c) (ff1 c) x = Inr f1"
    and "mode c = ''pure''"
    and "pure_step c f1 (view2 ts) = Inr (h, t)"
  shows "forward c inp hx ts g = (Inr (h, h), c\<lparr>tau_system := t\<rparr>, g')"
proof (cases "concat_input c inp hx")
  case (Inl e)
  with assms(1) show ?thesis by (simp add: features_def)
next
  case (Inr x0)
  with assms(1) have "run_backbone c x0 g = (Inr x, g')" by (simp add: features_def)
  with Inr assms(2-) show ?thesis by (simp add: forward_def)
qed

lemma forward_neuromod_eq:
  assumes "features c inp hx g = (Inr x, g1)"
    and "masked_linear (sparsity_mask c) (ff1 c) x = Inr f1"
    and "mode c = ''neuromodulated''"
    and "neuromod_signal c inp g1 = (Inr sig, c1, g2)"
    and "neuromod_step c1 (view2 sig) f1 (view2 ts) = Inr (h, t)"
  shows "forward c inp hx ts g = (Inr (h, h), c1\<lparr>tau_system := t\<rparr>, g2)"
proof (cases "concat_input c inp hx")
  case (Inl e)
  with assms(1) show ?thesis by (simp add: features_def)
next
  case (Inr x0)
  with assms(1) have "run_backbone c x0 g = (Inr x, g1)" by (simp add: features_def)
  with Inr assms(2-) show ?thesis by (simp add: forward_def)
qed

lemma forward_cfc_eq:
  assumes "features c inp hx g = (Inr x, g')"
    and "masked_linear (sparsity_mask c) (ff1 c) x = Inr f1"
    and "mode c \<noteq> ''pure''" and "mode c \<noteq> ''neuromodulated''"
    and "cfc_step c x f1 (view2 ts) = Inr h"
  shows "forward c inp hx ts g = (Inr (h, h), c, g')"
proof (cases "concat_input c inp hx")
  case (Inl e)
  with assms(1) show ?thesis by (simp add: features_def)
next
  case (Inr x0)
  with assms(1) have "run_backbone c x0 g = (Inr x, g')" by (simp add: features_def)
  with Inr assms(2-) show ?thesis by (simp add: forward_def)
qed

lemma pure_step_el:
  assumes a: "cell_A c = Some a" "has_shape 1 h a"
    and w: "w_tau c = Some w" "has_shape 1 h w"
    and ts: "bcast_to r h ts" and f1: "has_shape r h f1"
  shows "\<exists>y t. pure_step c f1 ts = Inr (y, t) \<and> has_shape r h y \<and> has_shape r h t
           \<and> (\<forall>i<r. \<forall>j<h. el y i j =
                 - el a 0 j * exp (- bel ts i j * (\<bar>el w 0 j\<bar> + \<bar>el f1 i j\<bar>)) * el f1 i j
                 + el a 0 j)
           \<and> (\<forall>i<r. \<forall>j<h. el t i j = recip (\<bar>el w 0 j\<bar> + \<bar>el f1 i j\<bar>))"
proof -
  have ab: "bcast_to r h a" and wb: "bcast_to r h w" and fb: "bcast_to r h f1"
    using a(2) w(2) f1 by (simp_all add: row_bcast has_shape_bcast)
  have fn: "nrows f1 = r" "ncols f1 = h" using f1 by (simp_all add: has_shape_def)
  from closed_form_el [OF ab wb ts fb f1]
  obtain y where y: "closed_form a w ts f1 f1 = Inr y" "has_shape r h y"
    and yel: "\<forall>i<r. \<forall>j<h. el y i j =
                 - bel a i j * exp (- bel ts i j * (\<bar>bel w i j\<bar> + \<bar>bel f1 i j\<bar>)) * el f1 i j
                 + bel a i j"
    by blast
  from tau_of_el [OF wb fb]
  obtain t where t: "tau_of w f1 = Inr t" "bcast_to r h t"
    and tn: "nrows w = r \<or> nrows f1 = r \<longrightarrow> nrows t = r"
      "ncols w = h \<or> ncols f1 = h \<longrightarrow> ncols t = h"
    and tel: "\<forall>i<r. \<forall>j<h. bel t i j = recip (\<bar>bel w i j\<bar> + \<bar>bel f1 i j\<bar>)"
    by blast
  have tsz: "nrows t = r" "ncols t = h" using tn fn by simp_all
  have tsh: "has_shape r h t" by (rule bcast_full [OF t(2) tsz])
  have eq: "pure_step c f1 ts = Inr (y, t)"
    by (simp add: pure_step_def attr_def bindE_def a(1) w(1) y(1) t(1))
  have 1: "el y i j = - el a 0 j * exp (- bel ts i j * (\<bar>el w 0 j\<bar> + \<bar>el f1 i j\<bar>)) * el f1 i j
                 + el a 0 j" if i: "i < r" and j: "j < h" for i j
    using yel i j
    by (simp add: row_bel [OF a(2) j] row_bel [OF w(2) j] has_shape_bel [OF f1 i j])
  have 2: "el t i j = recip (\<bar>el w 0 j\<bar> + \<bar>el f1 i j\<bar>)" if i: "i < r" and j: "j < h" for i j
  proof -
    have "bel t i j = recip (\<bar>bel w i j\<bar> + \<bar>bel f1 i j\<bar>)" using tel i j by blast
    then show ?thesis
      by (simp only: row_bel [OF w(2) j] has_shape_bel [OF f1 i j] has_shape_bel [OF tsh i j])
  qed
  from eq y(2) tsh 1 2 show ?thesis by blast
qed

section \<open>The neuromodulation signal of a well-formed cell\<close>

lemma neuromod_step_el:
  assumes a: "cell_A c = Some a" "has_shape 1 h a"
    and w: "w_tau c = Some w" "has_shape 1 h w"
    and ts: "bcast_to r h ts" and d: "has_shape r h d" and f1: "has_shape r h f1"
  shows "\<exists>y t. neuromod_step c d f1 ts = Inr (y, t) \<and> has_shape r h y \<and> has_shape r h t
           \<and> (\<forall>i<r. \<forall>j<h. el y i j =
                 - el a 0 j * exp (- bel ts i j * (\<bar>el w 0 j\<bar> + \<bar>el d i j\<bar>)) * el f1 i j
                 + el a 0 j)
           \<and> (\<forall>i<r. \<forall>j<h. el t i j = recip (\<bar>el w 0 j\<bar> + \<bar>el d i j\<bar>))"
proof -
  have ab: "bcast_to r h a" and wb: "bcast_to r h w" and db: "bcast_to r h d"
    using a(2) w(2) d by (simp_all add: row_bcast has_shape_bcast)
  have dn: "nrows d = r" "ncols d = h" using d by (simp_all add: has_shape_def)
  from closed_form_el [OF ab wb ts db f1]
  obtain y where y: "closed_form a w ts d f1 = Inr y" "has_shape r h y"
    and yel: "\<forall>i<r. \<forall>j<h. el y i j =
                 - bel a i j * exp (- bel ts i j * (\<bar>bel w i j\<bar> + \<bar>bel d i j\<bar>)) * el f1 i j
                 + bel a i j"
    by blast
  from tau_of_el [OF wb db]
  obtain t where t: "tau_of w d = Inr t" "bcast_to r h t"
    and tn: "nrows w = r \<or> nrows d = r \<longrightarrow> nrows t = r"
      "ncols w = h \<or> ncols d = h \<longrightarrow> ncols t = h"
    and tel: "\<forall>i<r. \<forall>j<h. bel t i j = recip (\<bar>bel w i j\<bar> + \<bar>bel d i j\<bar>)"
    by blast
  have tsz: "nrows t = r" "ncols t = h" using tn dn by simp_all
  have tsh: "has_shape r h t" by (rule bcast_full [OF t(2) tsz])
  have eq: "neuromod_step c d f1 ts = Inr (y, t)"
    by (simp add: neuromod_step_def attr_def bindE_def a(1) w(1) y(1) t(1))
  have 1: "el y i j = - el a 0 j * exp (- bel ts i j * (\<bar>el w 0 j\<bar> + \<bar>el d i j\<bar>)) * el f1 i j
                 + el a 0 j" if i: "i < r" and j: "j < h" for i j
    using yel i j
    by (simp add: row_bel [OF a(2) j] row_bel [OF w(2) j] has_shape_bel [OF d i j])
  have 2: "el t i j = recip (\<bar>el w 0 j\<bar> + \<bar>el d i j\<bar>)" if i: "i < r" and j: "j < h" for i j
  proof -
    have "bel t i j = recip (\<bar>bel w i j\<bar> + \<bar>bel d i j\<bar>)" using tel i j by blast
    then show ?thesis
      by (simp only: row_bel [OF w(2) j] has_shape_bel [OF d i j] has_shape_bel [OF tsh i j])
  qed
  from eq y(2) tsh 1 2 show ?thesis by blast
qed

lemma call_network_good:
  assumes n: "wf_network d0 h n" and x: "has_shape B d0 x"
  shows "\<exists>s n' g'. call_network n (T2 x) g = (Inr (T2 s), n', g') \<and> has_shape B h s
           \<and> (\<forall>ms. n = Sequential ms \<longrightarrow> n' = n)"
proof (cases n)
  case (Sequential ms)
  with n have "wf_modules d0 ms h" by simp
  from call_sequential_shape [OF this x, of g]
  obtain y g' where "call_sequential ms x g = (Inr y, g')" "has_shape B h y" by blast
  with Sequential show ?thesis by (simp add: lift2_def)
next
  case (Callable f)
  have "wf_tensor x" "ncols x = d0" "nrows x = B" using x by (simp_all add: has_shape_def)
  with n Callable obtain y n' g' where "f (T2 x) g = (Inr (T2 y), n', g')" "has_shape B h y"
    by (metis wf_network.simps(2))
  with Callable show ?thesis by simp
qed

lemma neuromod_signal_good:
  assumes wf: "wf_cell c" and m: "mode c = ''neuromodulated''"
    and gi: "good_input c B (Tuple xs)"
  shows "\<exists>n ni s n' g'. neuromod c = Some n \<and> xs ! 1 = T2 ni
           \<and> call_network n (T2 ni) g = (Inr (T2 s), n', g')
           \<and> neuromod_signal c (Tuple xs) g = (Inr (T2 s), c\<lparr>neuromod := Some n'\<rparr>, g')
           \<and> has_shape B (hidden_size c) s
           \<and> (\<forall>ms. n = Sequential ms \<longrightarrow> n' = n)"
proof -
  from wf_cell_neuromod [OF wf m]
  obtain ds n where ds: "neuromod_network_dims c = Some ds"
    and n: "neuromod c = Some n" "wf_network (hd ds) (hidden_size c) n" by blast
  from gi ds have len: "2 \<le> length xs" and sh: "shaped B (hd ds) (xs ! 1)"
    by (simp_all add: good_input_def)
  from shaped_T2 [OF sh] obtain ni where ni: "xs ! 1 = T2 ni" "has_shape B (hd ds) ni" by blast
  from call_network_good [OF n(2) ni(2), of g]
  obtain s n' g' where cn: "call_network n (T2 ni) g = (Inr (T2 s), n', g')"
    "has_shape B (hidden_size c) s" "\<forall>ms. n = Sequential ms \<longrightarrow> n' = n" by blast
  have it: "item xs 1 = Inr (T2 ni)" using len ni(1) by (simp add: item_def)
  have "neuromod_signal c (Tuple xs) g = (Inr (T2 s), c\<lparr>neuromod := Some n'\<rparr>, g')"
    using it cn(1) by (simp add: neuromod_signal_def attr_def n(1))
  with n(1) ni(1) cn show ?thesis by blast
qed

section \<open>The gated modes of a well-formed cell\<close>

lemma bop_full_bcast:
  assumes a: "has_shape r c a" and b: "bcast_to r c b"
  shows "\<exists>t. bop f a b = Inr t \<and> has_shape r c t
           \<and> (\<forall>i<r. \<forall>j<c. el t i j = f (el a i j) (bel b i j))"
proof -
  have an: "nrows a = r" "ncols a = c" using a by (simp_all add: has_shape_def)
  from bop_bcast [OF has_shape_bcast [OF a] b, of f] an
  obtain t where t: "bop f a b = Inr t" "has_shape r c t"
    and tel: "\<forall>i<r. \<forall>j<c. el t i j = f (bel a i j) (bel b i j)" by blast
  have "el t i j = f (el a i j) (bel b i j)" if i: "i < r" and j: "j < c" for i j
    using tel i j by (simp add: has_shape_bel [OF a i j])
  with t show ?thesis by blast
qed

lemma bop_full:
  assumes a: "has_shape r c a" and b: "has_shape r c b"
  shows "\<exists>t. bop f a b = Inr t \<and> has_shape r c t
           \<and> (\<forall>i<r. \<forall>j<c. el t i j = f (el a i j) (el b i j))"
proof -
  from bop_full_bcast [OF a has_shape_bcast [OF b], of f]
  obtain t where t: "bop f a b = Inr t" "has_shape r c t"
    and tel: "\<forall>i<r. \<forall>j<c. el t i j = f (el a i j) (bel b i j)" by blast
  have "el t i j = f (el a i j) (el b i j)" if i: "i < r" and j: "j < c" for i j
    using tel i j by (simp add: has_shape_bel [OF b i j])
  with t show ?thesis by blast
qed

lemma call_linear_affine:
  assumes x: "has_shape r n x" and l: "wf_linear n m l"
  shows "\<exists>y. call_linear l x = Inr y \<and> has_shape r m y
           \<and> (\<forall>i<r. \<forall>j<m. el y i j = affine None l x i j)"
  using masked_linear_affine [OF x l, of None] by (simp add: masked_linear_def)

lemma cfc_step_el:
  assumes l2: "ff2 c = Some l2" "wf_linear n h l2"
    and la: "time_a c = Some la" "wf_linear n h la"
    and lb: "time_b c = Some lb" "wf_linear n h lb"
    and sm: "case sparsity_mask c of None \<Rightarrow> True | Some M \<Rightarrow> has_shape h n M"
    and x: "has_shape r n x" and f1: "has_shape r h f1" and ts: "bcast_to r h ts"
  shows "\<exists>y. cfc_step c x f1 ts = Inr y \<and> has_shape r h y
           \<and> (\<forall>i<r. \<forall>j<h. el y i j =
                 gate_mix (mode c) (tanh (el f1 i j))
                   (tanh (affine (sparsity_mask c) l2 x i j))
                   (sigmoid (affine None la x i j * bel ts i j + affine None lb x i j)))"
proof -
  from masked_linear_affine [OF x l2(2) sm]
  obtain f2 where f2: "masked_linear (sparsity_mask c) l2 x = Inr f2" "has_shape r h f2"
    and f2el: "\<forall>i<r. \<forall>j<h. el f2 i j = affine (sparsity_mask c) l2 x i j" by blast
  from call_linear_affine [OF x la(2)]
  obtain ta where ta: "call_linear la x = Inr ta" "has_shape r h ta"
    and tael: "\<forall>i<r. \<forall>j<h. el ta i j = affine None la x i j" by blast
  from call_linear_affine [OF x lb(2)]
  obtain tb where tb: "call_linear lb x = Inr tb" "has_shape r h tb"
    and tbel: "\<forall>i<r. \<forall>j<h. el tb i j = affine None lb x i j" by blast
  from bop_full_bcast [OF ta(2) ts, of "(*)"]
  obtain m where m: "bop (*) ta ts = Inr m" "has_shape r h m"
    and mel: "\<forall>i<r. \<forall>j<h. el m i j = el ta i j * bel ts i j" by blast
  from bop_full [OF m(2) tb(2), of "(+)"]
  obtain s where s: "bop (+) m tb = Inr s" "has_shape r h s"
    and sel: "\<forall>i<r. \<forall>j<h. el s i j = el m i j + el tb i j" by blast
  have sg: "has_shape r h (umap sigmoid s)" and tf1: "has_shape r h (umap tanh f1)"
    and tf2: "has_shape r h (umap tanh f2)"
    and om: "has_shape r h (umap (\<lambda>v. 1 - v) (umap sigmoid s))"
    using s(2) f1 f2(2) by simp_all
  have sgel: "el (umap sigmoid s) i j
      = sigmoid (affine None la x i j * bel ts i j + affine None lb x i j)"
    if i: "i < r" and j: "j < h" for i j
    using sel mel tael tbel i j by (simp add: umap_el [OF s(2) i j])
  have omel: "el (umap (\<lambda>v. 1 - v) (umap sigmoid s)) i j
      = 1 - sigmoid (affine None la x i j * bel ts i j + affine None lb x i j)"
    if i: "i < r" and j: "j < h" for i j
    by (simp add: umap_el [OF sg i j] sgel [OF i j])
  have tf2el: "el (umap tanh f2) i j = tanh (affine (sparsity_mask c) l2 x i j)"
    if i: "i < r" and j: "j < h" for i j
    using f2el i j by (simp add: umap_el [OF f2(2) i j])
  have tf1el: "el (umap tanh f1) i j = tanh (el f1 i j)" if i: "i < r" and j: "j < h" for i j
    by (simp add: umap_el [OF f1 i j])
  from bop_full [OF sg tf2, of "(*)"]
  obtain p2 where p2: "bop (*) (umap sigmoid s) (umap tanh f2) = Inr p2" "has_shape r h p2"
    and p2el: "\<forall>i<r. \<forall>j<h. el p2 i j = el (umap sigmoid s) i j * el (umap tanh f2) i j"
    by blast
  show ?thesis
  proof (cases "mode c = ''no_gate''")
    case True
    from bop_full [OF tf1 p2(2), of "(+)"]
    obtain y where y: "bop (+) (umap tanh f1) p2 = Inr y" "has_shape r h y"
      and yel: "\<forall>i<r. \<forall>j<h. el y i j = el (umap tanh f1) i j + el p2 i j" by blast
    have eq: "cfc_step c x f1 ts = Inr y"
      by (simp add: cfc_step_def bindE_def attr_def l2(1) la(1) lb(1) f2(1) ta(1) tb(1)
          m(1) s(1) True p2(1) y(1))
    have "el y i j = gate_mix (mode c) (tanh (el f1 i j))
                   (tanh (affine (sparsity_mask c) l2 x i j))
                   (sigmoid (affine None la x i j * bel ts i j + affine None lb x i j))"
      if i: "i < r" and j: "j < h" for i j
      using yel p2el i j
      by (simp add: gate_mix_def True tf1el [OF i j] tf2el [OF i j] sgel [OF i j])
    with eq y(2) show ?thesis by blast
  next
    case False
    from bop_full [OF tf1 om, of "(*)"]
    obtain p1 where p1: "bop (*) (umap tanh f1) (umap (\<lambda>v. 1 - v) (umap sigmoid s)) = Inr p1"
      "has_shape r h p1"
      and p1el: "\<forall>i<r. \<forall>j<h. el p1 i j
          = el (umap tanh f1) i j * el (umap (\<lambda>v. 1 - v) (umap sigmoid s)) i j"
      by blast
    from bop_full [OF p1(2) p2(2), of "(+)"]
    obtain y where y: "bop (+) p1 p2 = Inr y" "has_shape r h y"
      and yel: "\<forall>i<r. \<forall>j<h. el y i j = el p1 i j + el p2 i j" by blast
    have eq: "cfc_step c x f1 ts = Inr y"
      by (simp add: cfc_step_def bindE_def attr_def l2(1) la(1) lb(1) f2(1) ta(1) tb(1)
          m(1) s(1) False p1(1) p2(1) y(1))
    have "el y i j = gate_mix (mode c) (tanh (el f1 i j))
                   (tanh (affine (sparsity_mask c) l2 x i j))
                   (sigmoid (affine None la x i j * bel ts i j + affine None lb x i j))"
      if i: "i < r" and j: "j < h" for i j
      using yel p1el p2el i j
      by (simp add: gate_mix_def False tf1el [OF i j] tf2el [OF i j] sgel [OF i j]
          omel [OF i j])
    with eq y(2) show ?thesis by blast
  qed
qed



lemma forward_cfc_good:
  assumes wf: "wf_cell c" and m1: "mode c \<noteq> ''pure''" and m2: "mode c \<noteq> ''neuromodulated''"
    and gi: "good_input c B inp" and hx: "shaped B (hidden_size c) hx"
    and ts: "bcast_to B (hidden_size c) (view2 ts)"
  shows "\<exists>x' g' l2 la lb h.
           features c inp hx g = (Inr x', g') \<and> has_shape B (cat_shape c) x'
         \<and> ff2 c = Some l2 \<and> time_a c = Some la \<and> time_b c = Some lb
         \<and> forward c inp hx ts g = (Inr (h, h), c, g')
         \<and> has_shape B (hidden_size c) h
         \<and> (\<forall>i<B. \<forall>j<hidden_size c.
               el h i j =
                 gate_mix (mode c) (tanh (affine (sparsity_mask c) (ff1 c) x' i j))
                   (tanh (affine (sparsity_mask c) l2 x' i j))
                   (sigmoid (affine None la x' i j * bel (view2 ts) i j
                             + affine None lb x' i j)))"
proof -
  from features_shape [OF wf gi hx]
  obtain x' g' where x': "features c inp hx g = (Inr x', g')" "has_shape B (cat_shape c) x'"
    by blast
  from masked_linear_affine [OF x'(2) wf_cell_ff1 [OF wf] wf_cell_mask [OF wf]]
  obtain f1 where f1: "masked_linear (sparsity_mask c) (ff1 c) x' = Inr f1"
    "has_shape B (hidden_size c) f1"
    and f1el: "\<forall>i<B. \<forall>j<hidden_size c. el f1 i j = affine (sparsity_mask c) (ff1 c) x' i j"
    by blast
  from wf_cell_gates [OF wf m1 m2]
  obtain l2 la lb where l2: "ff2 c = Some l2" "wf_linear (cat_shape c) (hidden_size c) l2"
    and la: "time_a c = Some la" "wf_linear (cat_shape c) (hidden_size c) la"
    and lb: "time_b c = Some lb" "wf_linear (cat_shape c) (hidden_size c) lb"
    by blast
  from cfc_step_el [OF l2 la lb wf_cell_mask [OF wf] x'(2) f1(2) ts]
  obtain h where h: "cfc_step c x' f1 (view2 ts) = Inr h" "has_shape B (hidden_size c) h"
    and hel: "\<forall>i<B. \<forall>j<hidden_size c. el h i j =
                 gate_mix (mode c) (tanh (el f1 i j))
                   (tanh (affine (sparsity_mask c) l2 x' i j))
                   (sigmoid (affine None la x' i j * bel (view2 ts) i j
                             + affine None lb x' i j))"
    by blast
  have fw: "forward c inp hx ts g = (Inr (h, h), c, g')"
    by (rule forward_cfc_eq [OF x'(1) f1(1) m1 m2 h(1)])
  have hel': "\<forall>i<B. \<forall>j<hidden_size c.
               el h i j =
                 gate_mix (mode c) (tanh (affine (sparsity_mask c) (ff1 c) x' i j))
                   (tanh (affine (sparsity_mask c) l2 x' i j))
                   (sigmoid (affine None la x' i j * bel (view2 ts) i j
                             + affine None lb x' i j))"
    using hel f1el by simp
  from x' l2(1) la(1) lb(1) fw h(2) hel' show ?thesis by blast
qed

lemma cat_shape_time_a [simp]: "cat_shape (c\<lparr>time_a := v\<rparr>) = cat_shape c"
  by (simp add: cat_shape_def)





lemma forward_pure_good:
  assumes wf: "wf_cell c" and m: "mode c = ''pure''"
    and gi: "good_input c B inp" and hx: "shaped B (hidden_size c) hx"
    and ts: "bcast_to B (hidden_size c) (view2 ts)"
  shows "\<exists>h c' g'. forward c inp hx ts g = (Inr (h, h), c', g') \<and> has_shape B (hidden_size c) h"
proof -
  from features_shape [OF wf gi hx]
  obtain x' g' where x': "features c inp hx g = (Inr x', g')" "has_shape B (cat_shape c) x'"
    by blast
  from masked_linear_affine [OF x'(2) wf_cell_ff1 [OF wf] wf_cell_mask [OF wf]]
  obtain f1 where f1: "masked_linear (sparsity_mask c) (ff1 c) x' = Inr f1"
    "has_shape B (hidden_size c) f1" by blast
  from wf_cell_tau [OF wf] m
  obtain a w where a: "cell_A c = Some a" "has_shape 1 (hidden_size c) a"
    and w: "w_tau c = Some w" "has_shape 1 (hidden_size c) w" by blast
  from pure_step_el [OF a w ts f1(2)]
  obtain h t where ht: "pure_step c f1 (view2 ts) = Inr (h, t)" "has_shape B (hidden_size c) h"
    by blast
  from forward_pure_eq [OF x'(1) f1(1) m ht(1)] ht(2) show ?thesis by blast
qed

lemma forward_neuromod_good:
  assumes wf: "wf_cell c" and m: "mode c = ''neuromodulated''"
    and gi: "good_input c B inp" and hx: "shaped B (hidden_size c) hx"
    and ts: "bcast_to B (hidden_size c) (view2 ts)"
  shows "\<exists>h c' g'. forward c inp hx ts g = (Inr (h, h), c', g') \<and> has_shape B (hidden_size c) h"
proof -
  from gi m obtain xs where inp: "inp = Tuple xs"
    by (cases inp) (simp_all add: good_input_def)
  from features_shape [OF wf gi hx]
  obtain x' g1 where x': "features c inp hx g = (Inr x', g1)" "has_shape B (cat_shape c) x'"
    by blast
  from masked_linear_affine [OF x'(2) wf_cell_ff1 [OF wf] wf_cell_mask [OF wf]]
  obtain f1 where f1: "masked_linear (sparsity_mask c) (ff1 c) x' = Inr f1"
    "has_shape B (hidden_size c) f1" by blast
  from neuromod_signal_good [OF wf m gi [unfolded inp], of g1]
  obtain s n' g2 where
    ns: "neuromod_signal c (Tuple xs) g1 = (Inr (T2 s), c\<lparr>neuromod := Some n'\<rparr>, g2)"
    and s: "has_shape B (hidden_size c) s" by blast
  from wf_cell_tau [OF wf] m
  obtain a w where a: "cell_A c = Some a" "has_shape 1 (hidden_size c) a"
    and w: "w_tau c = Some w" "has_shape 1 (hidden_size c) w" by blast
  have a1: "cell_A (c\<lparr>neuromod := Some n'\<rparr>) = Some a"
    and w1: "w_tau (c\<lparr>neuromod := Some n'\<rparr>) = Some w"
    using a(1) w(1) by simp_all
  have sv: "view2 (T2 s) = s" by (simp add: view2_def)
  from neuromod_step_el [OF a1 a(2) w1 w(2) ts s f1(2)]
  obtain h t where ht: "neuromod_step (c\<lparr>neuromod := Some n'\<rparr>) s f1 (view2 ts) = Inr (h, t)"
    "has_shape B (hidden_size c) h" by blast
  from ht(1) have ht': "neuromod_step (c\<lparr>neuromod := Some n'\<rparr>) (view2 (T2 s)) f1 (view2 ts)
      = Inr (h, t)" by (simp only: sv)
  from forward_neuromod_eq [OF x'(1) f1(1) m ns [folded inp] ht'] ht(2) show ?thesis by blast
qed

section \<open>Evaluation on the example cells\<close>

lemmas tensor_eval =
  bop_def bdim_def expand_def expand_list_def nrows_def umap_def cat1_def linear_def dot_def
  call_linear_def bindE_def attr_def view2_def cat_dim1_def

lemma ex_pure_features:
  "features ex_pure (Single (T2 (Tensor 1 [[1]]))) (T2 (Tensor 1 [[1]])) g
     = (Inr (Tensor 2 [[1, 1]]), g)"
  by (simp add: features_def concat_input_def run_backbone_def ex_pure_def tensor_eval)






















lemma ex_neuromod_features:
  "features ex_neuromod (Tuple [T2 (Tensor 1 [[1]]), T2 (Tensor 1 [[2]])]) (T2 (Tensor 1 [[1]])) g
     = (Inr (Tensor 2 [[1, 1]]), g)"
  by (simp add: features_def concat_input_def run_backbone_def item_def ex_neuromod_def
      tensor_eval)





lemma wf_ex_pure: "wf_cell ex_pure"
  by (simp add: wf_cell_def ex_pure_def allowed_modes_def cat_shape_def wf_linear_def
      has_shape_def wf_tensor_def nrows_def)

lemma wf_ex_neuromod: "wf_cell ex_neuromod"
  by (simp add: wf_cell_def ex_neuromod_def allowed_modes_def cat_shape_def wf_linear_def
      has_shape_def wf_tensor_def nrows_def)

lemma ex_neuromod_call:
  "call_network (Sequential [LinearM (Linear (Tensor 1 [[2]]) [0]), ActivationM ReLU])
      (T2 (Tensor 1 [[2]])) g
   = (Inr (T2 (Tensor 1 [[4]])),
      Sequential [LinearM (Linear (Tensor 1 [[2]]) [0]), ActivationM ReLU], g)"
  by (simp add: lift2_def ReLU_def tensor_eval)

lemma wf_ex_no_gate: "wf_cell ex_no_gate"
  by (simp add: wf_cell_def ex_no_gate_def allowed_modes_def cat_shape_def wf_linear_def
      has_shape_def wf_tensor_def nrows_def)


section \<open>Claim C9: what a call of forward changes\<close>





section \<open>Claim C1: mode pure\<close>

text \<open>
  Claim C1. For a well-formed cell in mode \<open>pure\<close>, for every input of shape
  \<open>(B, input_size)\<close>, hidden state of shape \<open>(B, hidden_size)\<close> and time span that
  broadcasts against \<open>(B, hidden_size)\<close>, \<open>forward\<close> returns. With \<open>x'\<close> the
  output of the backbone and \<open>ff1\<close> its affine projection, masked or raw, the returned
  hidden state has the entries \<open>-A * exp(-ts * (|w_tau| + |ff1|)) * ff1 + A\<close>, and
  the call overwrites \<open>tau_system\<close> with the entries \<open>1 / (|w_tau| + |ff1|)\<close> and
  changes nothing else in the cell.
\<close>

theorem forward_pure:
  assumes wf: "wf_cell c" and m: "mode c = ''pure''"
    and x: "shaped B (input_size c) x" and hx: "shaped B (hidden_size c) hx"
    and ts: "bcast_to B (hidden_size c) (view2 ts)"
  shows "\<exists>x' g' a w h t.
           features c (Single x) hx g = (Inr x', g') \<and> has_shape B (cat_shape c) x'
         \<and> cell_A c = Some a \<and> w_tau c = Some w
         \<and> forward c (Single x) hx ts g = (Inr (h, h), c\<lparr>tau_system := t\<rparr>, g')
         \<and> has_shape B (hidden_size c) h \<and> has_shape B (hidden_size c) t
         \<and> (\<forall>i<B. \<forall>j<hidden_size c.
               el h i j =
                 - el a 0 j
                 * exp (- bel (view2 ts) i j
                        * (\<bar>el w 0 j\<bar> + \<bar>affine (sparsity_mask c) (ff1 c) x' i j\<bar>))
                 * affine (sparsity_mask c) (ff1 c) x' i j
                 + el a 0 j)
         \<and> (\<forall>i<B. \<forall>j<hidden_size c.
               el t i j = recip (\<bar>el w 0 j\<bar> + \<bar>affine (sparsity_mask c) (ff1 c) x' i j\<bar>))"
proof -
  have gi: "good_input c B (Single x)" using m x by (simp add: good_input_def)
  from features_shape [OF wf gi hx]
  obtain x' g' where x': "features c (Single x) hx g = (Inr x', g')" "has_shape B (cat_shape c) x'"
    by blast
  from masked_linear_affine [OF x'(2) wf_cell_ff1 [OF wf] wf_cell_mask [OF wf]]
  obtain f1 where f1: "masked_linear (sparsity_mask c) (ff1 c) x' = Inr f1"
    "has_shape B (hidden_size c) f1"
    and f1el: "\<forall>i<B. \<forall>j<hidden_size c. el f1 i j = affine (sparsity_mask c) (ff1 c) x' i j"
    by blast
  from wf_cell_tau [OF wf] m
  obtain a w where a: "cell_A c = Some a" "has_shape 1 (hidden_size c) a"
    and w: "w_tau c = Some w" "has_shape 1 (hidden_size c) w"
    by blast
  from pure_step_el [OF a w ts f1(2)]
  obtain h t where ht: "pure_step c f1 (view2 ts) = Inr (h, t)"
    "has_shape B (hidden_size c) h" "has_shape B (hidden_size c) t"
    and hel: "\<forall>i<B. \<forall>j<hidden_size c. el h i j =
                 - el a 0 j * exp (- bel (view2 ts) i j * (\<bar>el w 0 j\<bar> + \<bar>el f1 i j\<bar>)) * el f1 i j
                 + el a 0 j"
    and tel: "\<forall>i<B. \<forall>j<hidden_size c. el t i j = recip (\<bar>el w 0 j\<bar> + \<bar>el f1 i j\<bar>)"
    by blast
  have fw: "forward c (Single x) hx ts g = (Inr (h, h), c\<lparr>tau_system := t\<rparr>, g')"
    by (rule forward_pure_eq [OF x'(1) f1(1) m ht(1)])
  have hel': "\<forall>i<B. \<forall>j<hidden_size c.
               el h i j =
                 - el a 0 j
                 * exp (- bel (view2 ts) i j
                        * (\<bar>el w 0 j\<bar> + \<bar>affine (sparsity_mask c) (ff1 c) x' i j\<bar>))
                 * affine (sparsity_mask c) (ff1 c) x' i j
                 + el a 0 j"
    using hel f1el by simp
  have tel': "\<forall>i<B. \<forall>j<hidden_size c.
               el t i j = recip (\<bar>el w 0 j\<bar> + \<bar>affine (sparsity_mask c) (ff1 c) x' i j\<bar>)"
    using tel f1el by simp
  from x' a(1) w(1) fw ht(2,3) hel' tel' show ?thesis by blast
qed

text \<open>The theorem at the example cell, where \<open>ff1 = 2\<close> and \<open>ts = 0\<close>.\<close>

theorem forward_pure_witness:
  "wf_cell ex_pure \<and> mode ex_pure = ''pure''
   \<and> shaped 1 (input_size ex_pure) (T2 (Tensor 1 [[1]]))
   \<and> shaped 1 (hidden_size ex_pure) (T2 (Tensor 1 [[1]]))
   \<and> bcast_to 1 (hidden_size ex_pure) (view2 (T0 0))
   \<and> (\<exists>h t g'. forward ex_pure (Single (T2 (Tensor 1 [[1]]))) (T2 (Tensor 1 [[1]])) (T0 0) ex_rng
                  = (Inr (h, h), ex_pure\<lparr>tau_system := t\<rparr>, g')
               \<and> el h 0 0 = - 1 \<and> el t 0 0 = Finite (1 / 2))"
proof -
  have m: "mode ex_pure = ''pure''" by (simp add: ex_pure_def)
  have x: "shaped 1 (input_size ex_pure) (T2 (Tensor 1 [[1]]))"
    and hx: "shaped 1 (hidden_size ex_pure) (T2 (Tensor 1 [[1]]))"
    and ts: "bcast_to 1 (hidden_size ex_pure) (view2 (T0 0))"
    by (simp_all add: ex_pure_def shaped_def has_shape_def bcast_to_def wf_tensor_def nrows_def
        view2_def)
  have af: "affine (sparsity_mask ex_pure) (ff1 ex_pure) (Tensor 2 [[1, 1]]) 0 0 = 2"
    by (simp add: affine_def masked_weight_def el_def ex_pure_def lessThan_Suc numeral_2_eq_2)
  have hs: "hidden_size ex_pure = 1" by (simp add: ex_pure_def)
  have b0: "bel (view2 (T0 0)) 0 0 = 0" by (simp add: bel_def el_def view2_def nrows_def)
  from forward_pure [OF wf_ex_pure m x hx ts, of ex_rng]
  obtain x' g' a w h t where
    f: "features ex_pure (Single (T2 (Tensor 1 [[1]]))) (T2 (Tensor 1 [[1]])) ex_rng = (Inr x', g')"
    and a: "cell_A ex_pure = Some a" and w: "w_tau ex_pure = Some w"
    and fw: "forward ex_pure (Single (T2 (Tensor 1 [[1]]))) (T2 (Tensor 1 [[1]])) (T0 0) ex_rng
               = (Inr (h, h), ex_pure\<lparr>tau_system := t\<rparr>, g')"
    and hel: "\<forall>i<1. \<forall>j<hidden_size ex_pure.
               el h i j =
                 - el a 0 j
                 * exp (- bel (view2 (T0 0)) i j
                        * (\<bar>el w 0 j\<bar> + \<bar>affine (sparsity_mask ex_pure) (ff1 ex_pure) x' i j\<bar>))
                 * affine (sparsity_mask ex_pure) (ff1 ex_pure) x' i j
                 + el a 0 j"
    and tel: "\<forall>i<1. \<forall>j<hidden_size ex_pure.
               el t i j = recip (\<bar>el w 0 j\<bar> + \<bar>affine (sparsity_mask ex_pure) (ff1 ex_pure) x' i j\<bar>)"
    by (elim exE conjE)
  from f [unfolded ex_pure_features] have x': "x' = Tensor 2 [[1, 1]]" by simp
  from a have a0: "el a 0 0 = 1" by (auto simp: ex_pure_def el_def)
  from w have w0: "el w 0 0 = 0" by (auto simp: ex_pure_def el_def)
  from hel have "el h 0 0 = - el a 0 0
                 * exp (- bel (view2 (T0 0)) 0 0
                        * (\<bar>el w 0 0\<bar> + \<bar>affine (sparsity_mask ex_pure) (ff1 ex_pure) x' 0 0\<bar>))
                 * affine (sparsity_mask ex_pure) (ff1 ex_pure) x' 0 0
                 + el a 0 0"
    by (simp add: hs)
  then have h0: "el h 0 0 = - 1" by (simp add: x' af a0 w0 b0)
  from tel have "el t 0 0 = recip (\<bar>el w 0 0\<bar> + \<bar>affine (sparsity_mask ex_pure) (ff1 ex_pure) x' 0 0\<bar>)"
    by (simp add: hs)
  then have t0: "el t 0 0 = Finite (1 / 2)" by (simp add: x' af w0 recip_def)
  from fw h0 t0 have "\<exists>h t g'. forward ex_pure (Single (T2 (Tensor 1 [[1]]))) (T2 (Tensor 1 [[1]])) (T0 0) ex_rng
                  = (Inr (h, h), ex_pure\<lparr>tau_system := t\<rparr>, g')
               \<and> el h 0 0 = - 1 \<and> el t 0 0 = Finite (1 / 2)"
    by (intro exI conjI)
  with wf_ex_pure m x hx ts show ?thesis by (intro conjI)
qed

section \<open>Claim C2: mode neuromodulated\<close>

text \<open>
  Claim C2. For a well-formed cell in mode \<open>neuromodulated\<close>, for every tuple of a
  policy input of shape \<open>(B, input_size)\<close> and a neuromodulation input of shape
  \<open>(B, neuromod_network_dims[0])\<close>, every hidden state of shape \<open>(B, hidden_size)\<close>
  and every time span that broadcasts, \<open>forward\<close> returns. The feature vector is
  computed from the concatenation of the policy input and the hidden state, \<open>ff1\<close> is
  its affine projection, the signal is the output of the network on the neuromodulation
  input. The returned hidden state has the entries
  \<open>-A * exp(-ts * (|w_tau| + |signal|)) * ff1 + A\<close>: the decay comes from the signal,
  the magnitude from \<open>ff1\<close>. The call records \<open>tau_system = 1 / (|w_tau| + |signal|)\<close>.
\<close>

theorem forward_neuromodulated:
  assumes wf: "wf_cell c" and m: "mode c = ''neuromodulated''"
    and gi: "good_input c B (Tuple [p, ni])" and hx: "shaped B (hidden_size c) hx"
    and ts: "bcast_to B (hidden_size c) (view2 ts)"
  shows "\<exists>x' g1 n s n' g2 a w h t.
           concat_input c (Tuple [p, ni]) hx = cat_dim1 p hx
         \<and> features c (Tuple [p, ni]) hx g = (Inr x', g1) \<and> has_shape B (cat_shape c) x'
         \<and> neuromod c = Some n \<and> call_network n ni g1 = (Inr (T2 s), n', g2)
         \<and> has_shape B (hidden_size c) s
         \<and> cell_A c = Some a \<and> w_tau c = Some w
         \<and> forward c (Tuple [p, ni]) hx ts g
             = (Inr (h, h), c\<lparr>neuromod := Some n', tau_system := t\<rparr>, g2)
         \<and> has_shape B (hidden_size c) h \<and> has_shape B (hidden_size c) t
         \<and> (\<forall>i<B. \<forall>j<hidden_size c.
               el h i j =
                 - el a 0 j
                 * exp (- bel (view2 ts) i j * (\<bar>el w 0 j\<bar> + \<bar>el s i j\<bar>))
                 * affine (sparsity_mask c) (ff1 c) x' i j
                 + el a 0 j)
         \<and> (\<forall>i<B. \<forall>j<hidden_size c. el t i j = recip (\<bar>el w 0 j\<bar> + \<bar>el s i j\<bar>))"
proof -
  have cc: "concat_input c (Tuple [p, ni]) hx = cat_dim1 p hx"
    using concat_input_policy [OF gi] by (simp add: policy_input_def)
  from features_shape [OF wf gi hx]
  obtain x' g1 where x': "features c (Tuple [p, ni]) hx g = (Inr x', g1)"
    "has_shape B (cat_shape c) x'"
    by blast
  from masked_linear_affine [OF x'(2) wf_cell_ff1 [OF wf] wf_cell_mask [OF wf]]
  obtain f1 where f1: "masked_linear (sparsity_mask c) (ff1 c) x' = Inr f1"
    "has_shape B (hidden_size c) f1"
    and f1el: "\<forall>i<B. \<forall>j<hidden_size c. el f1 i j = affine (sparsity_mask c) (ff1 c) x' i j"
    by blast
  from neuromod_signal_good [OF wf m gi, of g1]
  obtain n ni' s n' g2 where n: "neuromod c = Some n" and ni': "[p, ni] ! 1 = T2 ni'"
    and cn: "call_network n (T2 ni') g1 = (Inr (T2 s), n', g2)"
    and ns: "neuromod_signal c (Tuple [p, ni]) g1 = (Inr (T2 s), c\<lparr>neuromod := Some n'\<rparr>, g2)"
    and s: "has_shape B (hidden_size c) s"
    by blast
  from ni' have nieq: "ni = T2 ni'" by simp
  from wf_cell_tau [OF wf] m
  obtain a w where a: "cell_A c = Some a" "has_shape 1 (hidden_size c) a"
    and w: "w_tau c = Some w" "has_shape 1 (hidden_size c) w"
    by blast
  have a1: "cell_A (c\<lparr>neuromod := Some n'\<rparr>) = Some a"
    and w1: "w_tau (c\<lparr>neuromod := Some n'\<rparr>) = Some w"
    using a(1) w(1) by simp_all
  have sv: "view2 (T2 s) = s" by (simp add: view2_def)
  from neuromod_step_el [OF a1 a(2) w1 w(2) ts s f1(2)]
  obtain h t where ht: "neuromod_step (c\<lparr>neuromod := Some n'\<rparr>) s f1 (view2 ts) = Inr (h, t)"
    "has_shape B (hidden_size c) h" "has_shape B (hidden_size c) t"
    and hel: "\<forall>i<B. \<forall>j<hidden_size c. el h i j =
                 - el a 0 j * exp (- bel (view2 ts) i j * (\<bar>el w 0 j\<bar> + \<bar>el s i j\<bar>)) * el f1 i j
                 + el a 0 j"
    and tel: "\<forall>i<B. \<forall>j<hidden_size c. el t i j = recip (\<bar>el w 0 j\<bar> + \<bar>el s i j\<bar>)"
    by blast
  from ht(1) have ht': "neuromod_step (c\<lparr>neuromod := Some n'\<rparr>) (view2 (T2 s)) f1 (view2 ts)
      = Inr (h, t)" by (simp only: sv)
  have fw: "forward c (Tuple [p, ni]) hx ts g
      = (Inr (h, h), c\<lparr>neuromod := Some n', tau_system := t\<rparr>, g2)"
    by (rule forward_neuromod_eq [OF x'(1) f1(1) m ns ht'])
  have hel': "\<forall>i<B. \<forall>j<hidden_size c.
               el h i j =
                 - el a 0 j
                 * exp (- bel (view2 ts) i j * (\<bar>el w 0 j\<bar> + \<bar>el s i j\<bar>))
                 * affine (sparsity_mask c) (ff1 c) x' i j
                 + el a 0 j"
    using hel f1el by simp
  from cn nieq have cn': "call_network n ni g1 = (Inr (T2 s), n', g2)" by simp
  from cc x' n cn' s a(1) w(1) fw ht(2,3) hel' tel show ?thesis by blast
qed


text \<open>The theorem at the example cell, where \<open>ff1 = 2\<close>, the signal is 4 and \<open>ts = 0\<close>.\<close>

theorem forward_neuromodulated_witness:
  "wf_cell ex_neuromod \<and> mode ex_neuromod = ''neuromodulated''
   \<and> good_input ex_neuromod 1 (Tuple [T2 (Tensor 1 [[1]]), T2 (Tensor 1 [[2]])])
   \<and> shaped 1 (hidden_size ex_neuromod) (T2 (Tensor 1 [[1]]))
   \<and> bcast_to 1 (hidden_size ex_neuromod) (view2 (T0 0))
   \<and> (\<exists>h t c' g'.
         forward ex_neuromod (Tuple [T2 (Tensor 1 [[1]]), T2 (Tensor 1 [[2]])])
           (T2 (Tensor 1 [[1]])) (T0 0) ex_rng = (Inr (h, h), c', g')
       \<and> el h 0 0 = - 1 \<and> el t 0 0 = Finite (1 / 4) \<and> tau_system c' = t)"
proof -
  have m: "mode ex_neuromod = ''neuromodulated''" by (simp add: ex_neuromod_def)
  have gi: "good_input ex_neuromod 1 (Tuple [T2 (Tensor 1 [[1]]), T2 (Tensor 1 [[2]])])"
    by (simp add: good_input_def ex_neuromod_def shaped_def has_shape_def wf_tensor_def nrows_def)
  have hx: "shaped 1 (hidden_size ex_neuromod) (T2 (Tensor 1 [[1]]))"
    and ts: "bcast_to 1 (hidden_size ex_neuromod) (view2 (T0 0))"
    by (simp_all add: ex_neuromod_def shaped_def has_shape_def bcast_to_def wf_tensor_def
        nrows_def view2_def)
  have af: "affine (sparsity_mask ex_neuromod) (ff1 ex_neuromod) (Tensor 2 [[1, 1]]) 0 0 = 2"
    by (simp add: affine_def masked_weight_def el_def ex_neuromod_def lessThan_Suc numeral_2_eq_2)
  have hs: "hidden_size ex_neuromod = 1" by (simp add: ex_neuromod_def)
  have b0: "bel (view2 (T0 0)) 0 0 = 0" by (simp add: bel_def el_def view2_def nrows_def)
  have nn: "neuromod ex_neuromod
      = Some (Sequential [LinearM (Linear (Tensor 1 [[2]]) [0]), ActivationM ReLU])"
    by (simp add: ex_neuromod_def)
  from forward_neuromodulated [OF wf_ex_neuromod m gi hx ts, of ex_rng]
  obtain x' g1 n s n' g2 a w h t where
    f: "features ex_neuromod (Tuple [T2 (Tensor 1 [[1]]), T2 (Tensor 1 [[2]])])
          (T2 (Tensor 1 [[1]])) ex_rng = (Inr x', g1)"
    and n: "neuromod ex_neuromod = Some n"
    and cn: "call_network n (T2 (Tensor 1 [[2]])) g1 = (Inr (T2 s), n', g2)"
    and a: "cell_A ex_neuromod = Some a" and w: "w_tau ex_neuromod = Some w"
    and fw: "forward ex_neuromod (Tuple [T2 (Tensor 1 [[1]]), T2 (Tensor 1 [[2]])])
               (T2 (Tensor 1 [[1]])) (T0 0) ex_rng
               = (Inr (h, h), ex_neuromod\<lparr>neuromod := Some n', tau_system := t\<rparr>, g2)"
    and hel: "\<forall>i<1. \<forall>j<hidden_size ex_neuromod.
               el h i j =
                 - el a 0 j
                 * exp (- bel (view2 (T0 0)) i j * (\<bar>el w 0 j\<bar> + \<bar>el s i j\<bar>))
                 * affine (sparsity_mask ex_neuromod) (ff1 ex_neuromod) x' i j
                 + el a 0 j"
    and tel: "\<forall>i<1. \<forall>j<hidden_size ex_neuromod. el t i j = recip (\<bar>el w 0 j\<bar> + \<bar>el s i j\<bar>)"
    by (elim exE conjE)
  from f [unfolded ex_neuromod_features] have x': "x' = Tensor 2 [[1, 1]]" by simp
  from n nn have n': "n = Sequential [LinearM (Linear (Tensor 1 [[2]]) [0]), ActivationM ReLU]"
    by simp
  from cn [unfolded n' ex_neuromod_call] have s: "s = Tensor 1 [[4]]" by simp
  have s0: "el s 0 0 = 4" by (simp add: s el_def)
  from a have a0: "el a 0 0 = 1" by (auto simp: ex_neuromod_def el_def)
  from w have w0: "el w 0 0 = 0" by (auto simp: ex_neuromod_def el_def)
  from hel have "el h 0 0 = - el a 0 0
                 * exp (- bel (view2 (T0 0)) 0 0 * (\<bar>el w 0 0\<bar> + \<bar>el s 0 0\<bar>))
                 * affine (sparsity_mask ex_neuromod) (ff1 ex_neuromod) x' 0 0
                 + el a 0 0"
    by (simp add: hs)
  then have h0: "el h 0 0 = - 1" by (simp add: x' af a0 w0 b0)
  from tel have "el t 0 0 = recip (\<bar>el w 0 0\<bar> + \<bar>el s 0 0\<bar>)" by (simp add: hs)
  then have t0: "el t 0 0 = Finite (1 / 4)" by (simp add: s0 w0 recip_def)
  have tt: "tau_system (ex_neuromod\<lparr>neuromod := Some n', tau_system := t\<rparr>) = t" by simp
  from fw h0 t0 tt have "\<exists>h t c' g'.
         forward ex_neuromod (Tuple [T2 (Tensor 1 [[1]]), T2 (Tensor 1 [[2]])])
           (T2 (Tensor 1 [[1]])) (T0 0) ex_rng = (Inr (h, h), c', g')
       \<and> el h 0 0 = - 1 \<and> el t 0 0 = Finite (1 / 4) \<and> tau_system c' = t"
    by (intro exI conjI)
  with wf_ex_neuromod m gi hx ts show ?thesis by (intro conjI)
qed

section \<open>Claim C8: mode no_gate at time span zero\<close>



section \<open>Claim C7: the shape of the result\<close>

text \<open>
  Claim C7. In every mode, for a well-formed cell, a hidden state of shape
  \<open>(B, hidden_size)\<close>, correctly shaped inputs and a time span that broadcasts against
  \<open>(B, hidden_size)\<close>, \<open>forward\<close> returns, and what it returns is a pair whose two
  components are the same tensor, of shape \<open>(B, hidden_size)\<close>.
\<close>

theorem forward_shape:
  assumes wf: "wf_cell c" and gi: "good_input c B inp"
    and hx: "shaped B (hidden_size c) hx" and ts: "bcast_to B (hidden_size c) (view2 ts)"
  shows "\<exists>h c' g'. forward c inp hx ts g = (Inr (h, h), c', g')
           \<and> has_shape B (hidden_size c) h"
proof -
  consider (pure) "mode c = ''pure''"
    | (neuromod) "mode c = ''neuromodulated''"
    | (cfc) "mode c \<noteq> ''pure''" "mode c \<noteq> ''neuromodulated''"
    by blast
  then show ?thesis
  proof cases
    case pure
    then show ?thesis by (rule forward_pure_good [OF wf _ gi hx ts])
  next
    case neuromod
    then show ?thesis by (rule forward_neuromod_good [OF wf _ gi hx ts])
  next
    case cfc
    from forward_cfc_good [OF wf cfc gi hx ts, of g] show ?thesis by blast
  qed
qed

text \<open>The theorem at a batch of two rows.\<close>

theorem forward_shape_witness:
  "wf_cell ex_no_gate
   \<and> good_input ex_no_gate 2 (Single (T2 (Tensor 1 [[0], [1]])))
   \<and> shaped 2 (hidden_size ex_no_gate) (T2 (Tensor 1 [[0], [3]]))
   \<and> bcast_to 2 (hidden_size ex_no_gate) (view2 (T0 1))
   \<and> (\<exists>h c' g'. forward ex_no_gate (Single (T2 (Tensor 1 [[0], [1]]))) (T2 (Tensor 1 [[0], [3]]))
                    (T0 1) ex_rng = (Inr (h, h), c', g')
                \<and> has_shape 2 (hidden_size ex_no_gate) h)"
proof -
  have gi: "good_input ex_no_gate 2 (Single (T2 (Tensor 1 [[0], [1]])))"
    and hx: "shaped 2 (hidden_size ex_no_gate) (T2 (Tensor 1 [[0], [3]]))"
    and ts: "bcast_to 2 (hidden_size ex_no_gate) (view2 (T0 1))"
    by (simp_all add: good_input_def ex_no_gate_def shaped_def has_shape_def bcast_to_def
        wf_tensor_def nrows_def view2_def)
  from forward_shape [OF wf_ex_no_gate gi hx ts, of ex_rng] wf_ex_no_gate gi hx ts
  show ?thesis by (intro conjI)
qed

end
